theory Spec2Isabelle
  imports Complex_Main
begin

section \<open>The decimal values of bignumber.js\<close>

text \<open>
  \<^verbatim>\<open>formatObligation\<close> computes with the \<^verbatim>\<open>BigNumber\<close> class of bignumber.js. A
  \<^verbatim>\<open>BigNumber\<close> is a finite decimal, one of the two infinities, or \<^verbatim>\<open>NaN\<close>; no operation
  of the class throws on a zero divisor or on a non-number. Finite values are carried as
  rationals: \<^verbatim>\<open>plus\<close>, \<^verbatim>\<open>minus\<close> and \<^verbatim>\<open>times\<close> are exact in the library, and \<^verbatim>\<open>dividedBy\<close> rounds
  the exact quotient to \<^verbatim>\<open>DECIMAL_PLACES\<close> decimal places with \<^verbatim>\<open>ROUNDING_MODE\<close>, whose library
  defaults are 20 and \<^verbatim>\<open>ROUND_HALF_UP\<close> (nearest, ties away from zero). The sign of a zero
  is not modelled: the library's comparisons and \<^verbatim>\<open>isZero\<close> do not see it, and every zero
  divisor that \<^verbatim>\<open>formatObligation\<close> can reach is a positive zero. The exponent range
  (\<^verbatim>\<open>RANGE\<close>, 1e9 by default) is not modelled either.
\<close>

datatype BigNumber = Fin rat | PInf | NInf | NaN

definition DECIMAL_PLACES :: nat where
  "DECIMAL_PLACES = 20"

definition round_half_up :: "rat \<Rightarrow> rat" where
  "round_half_up q =
     (if 0 \<le> q then of_int (round (q * 10 ^ DECIMAL_PLACES)) / 10 ^ DECIMAL_PLACES
      else - (of_int (round (- q * 10 ^ DECIMAL_PLACES)) / 10 ^ DECIMAL_PLACES))"

text \<open>\<^verbatim>\<open>new BigNumber(v)\<close> for a field that may be \<^verbatim>\<open>undefined\<close>: the constructor yields
  \<^verbatim>\<open>NaN\<close> for \<^verbatim>\<open>undefined\<close>, and the same conversion is applied to the argument of every
  arithmetic method.\<close>

fun BigNumber_of :: "BigNumber option \<Rightarrow> BigNumber" where
  "BigNumber_of None = NaN"
| "BigNumber_of (Some v) = v"

fun bn_plus :: "BigNumber \<Rightarrow> BigNumber \<Rightarrow> BigNumber" where
  "bn_plus NaN y = NaN"
| "bn_plus (Fin a) NaN = NaN"
| "bn_plus PInf NaN = NaN"
| "bn_plus NInf NaN = NaN"
| "bn_plus (Fin a) (Fin b) = Fin (a + b)"
| "bn_plus (Fin a) PInf = PInf"
| "bn_plus (Fin a) NInf = NInf"
| "bn_plus PInf (Fin b) = PInf"
| "bn_plus PInf PInf = PInf"
| "bn_plus PInf NInf = NaN"
| "bn_plus NInf (Fin b) = NInf"
| "bn_plus NInf PInf = NaN"
| "bn_plus NInf NInf = NInf"

fun bn_negated :: "BigNumber \<Rightarrow> BigNumber" where
  "bn_negated (Fin a) = Fin (- a)"
| "bn_negated PInf = NInf"
| "bn_negated NInf = PInf"
| "bn_negated NaN = NaN"

definition bn_minus :: "BigNumber \<Rightarrow> BigNumber \<Rightarrow> BigNumber" where
  "bn_minus x y = bn_plus x (bn_negated y)"

fun bn_times :: "BigNumber \<Rightarrow> BigNumber \<Rightarrow> BigNumber" where
  "bn_times NaN y = NaN"
| "bn_times (Fin a) NaN = NaN"
| "bn_times PInf NaN = NaN"
| "bn_times NInf NaN = NaN"
| "bn_times (Fin a) (Fin b) = Fin (a * b)"
| "bn_times (Fin a) PInf = (if a = 0 then NaN else if 0 < a then PInf else NInf)"
| "bn_times (Fin a) NInf = (if a = 0 then NaN else if 0 < a then NInf else PInf)"
| "bn_times PInf (Fin b) = (if b = 0 then NaN else if 0 < b then PInf else NInf)"
| "bn_times NInf (Fin b) = (if b = 0 then NaN else if 0 < b then NInf else PInf)"
| "bn_times PInf PInf = PInf"
| "bn_times PInf NInf = NInf"
| "bn_times NInf PInf = NInf"
| "bn_times NInf NInf = PInf"

text \<open>Division never throws: a non-zero value over zero is an infinity, zero over zero is
  \<^verbatim>\<open>NaN\<close>, and a finite quotient is rounded.\<close>

fun dividedBy :: "BigNumber \<Rightarrow> BigNumber \<Rightarrow> BigNumber" where
  "dividedBy NaN y = NaN"
| "dividedBy (Fin a) NaN = NaN"
| "dividedBy PInf NaN = NaN"
| "dividedBy NInf NaN = NaN"
| "dividedBy (Fin a) (Fin b) =
     (if b = 0 then (if a = 0 then NaN else if 0 < a then PInf else NInf)
      else Fin (round_half_up (a / b)))"
| "dividedBy (Fin a) PInf = Fin 0"
| "dividedBy (Fin a) NInf = Fin 0"
| "dividedBy PInf (Fin b) = (if b < 0 then NInf else PInf)"
| "dividedBy NInf (Fin b) = (if b < 0 then PInf else NInf)"
| "dividedBy PInf PInf = NaN"
| "dividedBy PInf NInf = NaN"
| "dividedBy NInf PInf = NaN"
| "dividedBy NInf NInf = NaN"

text \<open>\<^verbatim>\<open>x.shiftedBy(k)\<close> is \<^verbatim>\<open>x.times('1e' + k)\<close>.\<close>

definition shiftedBy :: "int \<Rightarrow> BigNumber \<Rightarrow> BigNumber" where
  "shiftedBy k x = bn_times x (Fin (if 0 \<le> k then 10 ^ nat k else 1 / 10 ^ nat (- k)))"

definition isZero :: "BigNumber \<Rightarrow> bool" where
  "isZero x = (x = Fin 0)"

text \<open>\<^verbatim>\<open>isFinite\<close>: neither an infinity nor \<^verbatim>\<open>NaN\<close>.\<close>

fun isFinite :: "BigNumber \<Rightarrow> bool" where
  "isFinite (Fin a) = True"
| "isFinite PInf = False"
| "isFinite NInf = False"
| "isFinite NaN = False"

text \<open>\<^verbatim>\<open>comparedTo\<close>: 1, -1 or 0, and \<^verbatim>\<open>null\<close> (here \<open>None\<close>) when either side is \<^verbatim>\<open>NaN\<close>.\<close>

fun comparedTo :: "BigNumber \<Rightarrow> BigNumber \<Rightarrow> int option" where
  "comparedTo NaN y = None"
| "comparedTo (Fin a) NaN = None"
| "comparedTo PInf NaN = None"
| "comparedTo NInf NaN = None"
| "comparedTo (Fin a) (Fin b) = Some (if a < b then - 1 else if b < a then 1 else 0)"
| "comparedTo (Fin a) PInf = Some (- 1)"
| "comparedTo (Fin a) NInf = Some 1"
| "comparedTo PInf (Fin b) = Some 1"
| "comparedTo PInf PInf = Some 0"
| "comparedTo PInf NInf = Some 1"
| "comparedTo NInf (Fin b) = Some (- 1)"
| "comparedTo NInf PInf = Some (- 1)"
| "comparedTo NInf NInf = Some 0"

definition isGreaterThanOrEqualTo :: "BigNumber \<Rightarrow> BigNumber \<Rightarrow> bool" where
  "isGreaterThanOrEqualTo x y = (comparedTo x y = Some 1 \<or> comparedTo x y = Some 0)"

definition isLessThanOrEqualTo :: "BigNumber \<Rightarrow> BigNumber \<Rightarrow> bool" where
  "isLessThanOrEqualTo x y = (comparedTo x y = Some (- 1) \<or> comparedTo x y = Some 0)"

definition isGreaterThan :: "BigNumber \<Rightarrow> BigNumber \<Rightarrow> bool" where
  "isGreaterThan x y = (comparedTo x y = Some 1)"

definition isLessThan :: "BigNumber \<Rightarrow> BigNumber \<Rightarrow> bool" where
  "isLessThan x y = (comparedTo x y = Some (- 1))"

text \<open>\<^verbatim>\<open>BigNumber.max(x, y)\<close>: \<^verbatim>\<open>NaN\<close> when either argument is, the larger one otherwise.\<close>

definition bn_max :: "BigNumber \<Rightarrow> BigNumber \<Rightarrow> BigNumber" where
  "bn_max x y = (if y = NaN then NaN else if isLessThan x y then y else x)"

section \<open>Input and output structures\<close>

text \<open>
  The declarations of \<^verbatim>\<open>Obligation\<close> (\<^verbatim>\<open>../../state\<close>) and \<^verbatim>\<open>PoolType\<close> (\<^verbatim>\<open>../types\<close>) are
  not among the sources; the records hold the fields that \<^verbatim>\<open>formatObligation\<close> reads.
  Public keys are carried as their base-58 text, which is all the function uses of them.
\<close>

text \<open>Modelled from the spec: the type of an element of \<^verbatim>\<open>pool.reserves\<close>, whose declaration
  is missing. \<^verbatim>\<open>decimals\<close> is the base-unit scale of the mint, a natural number. \<^verbatim>\<open>emaPrice\<close>,
  \<^verbatim>\<open>minPrice\<close> and \<^verbatim>\<open>borrowWeight\<close> are optional, as in the spec's data model: \<open>None\<close> is
  \<^verbatim>\<open>undefined\<close>, and a field that is set holds a \<^verbatim>\<open>BigNumber\<close>, so that it is truthy. The other
  numeric fields are always present.\<close>

record Reserve =
  address :: string
  symbol :: string
  decimals :: nat
  price :: BigNumber
  emaPrice :: "BigNumber option"
  minPrice :: "BigNumber option"
  cTokenExchangeRate :: BigNumber
  cumulativeBorrowRate :: BigNumber
  loanToValueRatio :: BigNumber
  liquidationThreshold :: BigNumber
  borrowWeight :: "BigNumber option"

record PoolType =
  reserves :: "Reserve list"

text \<open>Modelled from the spec: the positions of \<^verbatim>\<open>obligation.info\<close> and the obligation, whose
  declarations are missing. The raw amounts are arbitrary-precision integers (\<^verbatim>\<open>BN\<close>), whose
  \<^verbatim>\<open>toString()\<close> is \<^verbatim>\<open>"0"\<close> exactly when \<^verbatim>\<open>isZero()\<close> holds.\<close>

record DepositPosition =
  depositReserve :: string
  depositedAmount :: int

record BorrowPosition =
  borrowReserve :: string
  borrowedAmountWads :: int
  cumulativeBorrowRateWads :: int

record Obligation =
  pubkey :: string
  lendingMarket :: string
  deposits :: "DepositPosition list"
  borrows :: "BorrowPosition list"

text \<open>The object returned for one deposit (source lines 41-49); the fields carry the
  prefix \<open>dep_\<close> before the source's names.\<close>

record FormattedDeposit =
  dep_liquidationThreshold :: BigNumber
  dep_loanToValueRatio :: BigNumber
  dep_symbol :: string
  dep_price :: BigNumber
  dep_reserveAddress :: string
  dep_amount :: BigNumber
  dep_amountUsd :: BigNumber

text \<open>The object returned for one borrow (source lines 78-89), fields prefixed \<open>bor_\<close>.\<close>

record FormattedBorrow =
  bor_liquidationThreshold :: BigNumber
  bor_loanToValueRatio :: BigNumber
  bor_symbol :: string
  bor_price :: BigNumber
  bor_reserveAddress :: string
  bor_amount :: BigNumber
  bor_amountUsd :: BigNumber
  bor_weightedAmountUsd :: BigNumber

text \<open>The object returned by \<^verbatim>\<open>formatObligation\<close> (source lines 142-164). The fields
  \<^verbatim>\<open>address\<close>, \<^verbatim>\<open>deposits\<close>, \<^verbatim>\<open>borrows\<close> and \<^verbatim>\<open>liquidationThreshold\<close> carry the prefix \<open>rep_\<close>.\<close>

record FormattedObligation =
  rep_address :: string
  positions :: nat
  rep_deposits :: "FormattedDeposit list"
  rep_borrows :: "FormattedBorrow list"
  poolAddress :: string
  totalSupplyValue :: BigNumber
  totalBorrowValue :: BigNumber
  borrowLimit :: BigNumber
  rep_liquidationThreshold :: BigNumber
  netAccountValue :: BigNumber
  liquidationThresholdFactor :: BigNumber
  borrowLimitFactor :: BigNumber
  borrowUtilization :: BigNumber
  weightedConservativeBorrowUtilization :: BigNumber
  weightedBorrowUtilization :: BigNumber
  isBorrowLimitReached :: bool
  borrowOverSupply :: BigNumber
  weightedTotalBorrowValue :: BigNumber
  minPriceUserTotalSupply :: BigNumber
  minPriceBorrowLimit :: BigNumber
  maxPriceUserTotalWeightedBorrow :: BigNumber

text \<open>The two \<^verbatim>\<open>throw Error(...)\<close> of the source.\<close>

datatype FormatError =
  DepositReserveMissing  \<comment> \<open>"Deposit in obligation does not exist in the pool"\<close>
| BorrowReserveMissing  \<comment> \<open>"Borrow in obligation does not exist in the pool"\<close>

text \<open>Modelled from the spec: \<^verbatim>\<open>U64_MAX\<close> of \<^verbatim>\<open>../../classes/constants\<close>, which is not among
  the sources; the spec calls it the sentinel maximum representable integer, and the name
  says the largest unsigned 64-bit integer.\<close>

definition U64_MAX :: BigNumber where
  "U64_MAX = Fin 18446744073709551615"

section \<open>formatObligation\<close>

text \<open>\<^verbatim>\<open>pool.reserves.find((r) => r.address === reserveAddress)\<close>.\<close>

definition findReserve :: "PoolType \<Rightarrow> string \<Rightarrow> Reserve option" where
  "findReserve pool reserveAddress = find (\<lambda>r. address r = reserveAddress) (reserves pool)"

text \<open>Source lines 28-31: the deposited amount in units of the underlying asset.\<close>

definition depositAmount :: "Reserve \<Rightarrow> DepositPosition \<Rightarrow> BigNumber" where
  "depositAmount reserve d =
     bn_times (shiftedBy (- int (decimals reserve)) (Fin (of_int (depositedAmount d))))
       (cTokenExchangeRate reserve)"

text \<open>The callback mapped over the non-zero deposits (source lines 21-50). The two
  outer variables it updates, \<^verbatim>\<open>minPriceUserTotalSupply\<close> and \<^verbatim>\<open>minPriceBorrowLimit\<close>, are
  passed in and returned.\<close>

definition depositEntry ::
  "PoolType \<Rightarrow> DepositPosition \<Rightarrow> BigNumber \<times> BigNumber \<Rightarrow>
     FormatError + (FormattedDeposit \<times> BigNumber \<times> BigNumber)" where
  "depositEntry pool d acc =
     (case findReserve pool (depositReserve d) of
        None \<Rightarrow> Inl DepositReserveMissing
      | Some reserve \<Rightarrow>
          (let amount = depositAmount reserve d;
               amountUsd = bn_times amount (price reserve);
               supply = bn_plus (fst acc) (bn_times amount (BigNumber_of (minPrice reserve)));
               limit = bn_plus (snd acc)
                         (bn_times (bn_times amount (BigNumber_of (minPrice reserve)))
                            (loanToValueRatio reserve))
           in Inr (\<lparr>dep_liquidationThreshold = liquidationThreshold reserve,
                    dep_loanToValueRatio = loanToValueRatio reserve,
                    dep_symbol = symbol reserve,
                    dep_price = price reserve,
                    dep_reserveAddress = depositReserve d,
                    dep_amount = amount,
                    dep_amountUsd = amountUsd\<rparr>, supply, limit)))"

fun mapDeposits ::
  "PoolType \<Rightarrow> DepositPosition list \<Rightarrow> BigNumber \<times> BigNumber \<Rightarrow>
     FormatError + (FormattedDeposit list \<times> BigNumber \<times> BigNumber)" where
  "mapDeposits pool [] acc = Inr ([], acc)"
| "mapDeposits pool (d # ds) acc =
     (case depositEntry pool d acc of
        Inl e \<Rightarrow> Inl e
      | Inr (x, acc') \<Rightarrow>
          (case mapDeposits pool ds acc' of
             Inl e \<Rightarrow> Inl e
           | Inr (xs, acc'') \<Rightarrow> Inr (x # xs, acc'')))"

text \<open>Source lines 60-65: the debt at the reserve's current interest index.\<close>

definition borrowAmount :: "Reserve \<Rightarrow> BorrowPosition \<Rightarrow> BigNumber" where
  "borrowAmount reserve b =
     dividedBy
       (bn_times
          (shiftedBy (- 18 - int (decimals reserve)) (Fin (of_int (borrowedAmountWads b))))
          (cumulativeBorrowRate reserve))
       (shiftedBy (- 18) (Fin (of_int (cumulativeBorrowRateWads b))))"

text \<open>The callback mapped over the non-zero borrows (source lines 54-90);
  \<^verbatim>\<open>maxPriceUserTotalWeightedBorrow\<close> is passed in and returned. The two conditionals on
  \<^verbatim>\<open>reserve.emaPrice\<close> and \<^verbatim>\<open>reserve.borrowWeight\<close> test whether the field is set;
  \<^verbatim>\<open>weightedAmountUsd\<close> converts \<^verbatim>\<open>reserve.borrowWeight\<close> with no such test.\<close>

definition borrowEntry ::
  "PoolType \<Rightarrow> BorrowPosition \<Rightarrow> BigNumber \<Rightarrow> FormatError + (FormattedBorrow \<times> BigNumber)" where
  "borrowEntry pool b acc =
     (case findReserve pool (borrowReserve b) of
        None \<Rightarrow> Inl BorrowReserveMissing
      | Some reserve \<Rightarrow>
          (let amount = borrowAmount reserve b;
               amountUsd = bn_times amount (price reserve);
               maxPrice = (case emaPrice reserve of
                             Some ema \<Rightarrow> bn_max ema (price reserve)
                           | None \<Rightarrow> price reserve);
               weighted = bn_plus acc
                            (bn_times (bn_times amount maxPrice)
                               (case borrowWeight reserve of Some w \<Rightarrow> w | None \<Rightarrow> U64_MAX))
           in Inr (\<lparr>bor_liquidationThreshold = liquidationThreshold reserve,
                    bor_loanToValueRatio = loanToValueRatio reserve,
                    bor_symbol = symbol reserve,
                    bor_price = price reserve,
                    bor_reserveAddress = borrowReserve b,
                    bor_amount = amount,
                    bor_amountUsd = amountUsd,
                    bor_weightedAmountUsd =
                      bn_times (BigNumber_of (borrowWeight reserve)) amountUsd\<rparr>, weighted)))"

fun mapBorrows ::
  "PoolType \<Rightarrow> BorrowPosition list \<Rightarrow> BigNumber \<Rightarrow>
     FormatError + (FormattedBorrow list \<times> BigNumber)" where
  "mapBorrows pool [] acc = Inr ([], acc)"
| "mapBorrows pool (b # bs) acc =
     (case borrowEntry pool b acc of
        Inl e \<Rightarrow> Inl e
      | Inr (x, acc') \<Rightarrow>
          (case mapBorrows pool bs acc' of
             Inl e \<Rightarrow> Inl e
           | Inr (xs, acc'') \<Rightarrow> Inr (x # xs, acc'')))"

text \<open>Source lines 92-164: the totals and ratios, from the two lists of entries and the
  three accumulators.\<close>

definition aggregate ::
  "Obligation \<Rightarrow> FormattedDeposit list \<Rightarrow> FormattedBorrow list \<Rightarrow>
     BigNumber \<Rightarrow> BigNumber \<Rightarrow> BigNumber \<Rightarrow> FormattedObligation" where
  "aggregate obligation ds bs minSupply minLimit maxWeighted =
     (let totalSupply = foldl (\<lambda>acc d. bn_plus acc (dep_amountUsd d)) (Fin 0) ds;
          totalBorrow = foldl (\<lambda>acc b. bn_plus acc (bor_amountUsd b)) (Fin 0) bs;
          weightedTotalBorrow =
            foldl (\<lambda>acc b. bn_plus acc (bor_weightedAmountUsd b)) (Fin 0) bs;
          limit = foldl (\<lambda>acc d. bn_plus (bn_times (dep_amountUsd d) (dep_loanToValueRatio d)) acc)
                    (Fin 0) ds;
          threshold =
            foldl (\<lambda>acc d. bn_plus (bn_times (dep_amountUsd d) (dep_liquidationThreshold d)) acc)
              (Fin 0) ds;
          utilization = (if isZero limit then Fin 0 else dividedBy totalBorrow limit)
      in \<lparr>rep_address = pubkey obligation,
          positions = length (filter (\<lambda>d. \<not> depositedAmount d = 0) (deposits obligation))
                      + length (filter (\<lambda>b. \<not> borrowedAmountWads b = 0) (borrows obligation)),
          rep_deposits = ds,
          rep_borrows = bs,
          poolAddress = lendingMarket obligation,
          totalSupplyValue = totalSupply,
          totalBorrowValue = totalBorrow,
          borrowLimit = limit,
          rep_liquidationThreshold = threshold,
          netAccountValue = bn_minus totalSupply totalBorrow,
          liquidationThresholdFactor =
            (if isZero totalSupply then Fin 0 else dividedBy threshold totalSupply),
          borrowLimitFactor = (if isZero totalSupply then Fin 0 else dividedBy limit totalSupply),
          borrowUtilization = utilization,
          weightedConservativeBorrowUtilization =
            (if isZero minLimit then Fin 0 else dividedBy maxWeighted minLimit),
          weightedBorrowUtilization =
            (if isZero minLimit then Fin 0 else dividedBy weightedTotalBorrow limit),
          isBorrowLimitReached = isGreaterThanOrEqualTo utilization (Fin 1),
          borrowOverSupply = (if isZero totalSupply then Fin 0 else dividedBy totalBorrow totalSupply),
          weightedTotalBorrowValue = weightedTotalBorrow,
          minPriceUserTotalSupply = minSupply,
          minPriceBorrowLimit = minLimit,
          maxPriceUserTotalWeightedBorrow = maxWeighted\<rparr>)"

definition formatObligation :: "Obligation \<Rightarrow> PoolType \<Rightarrow> FormatError + FormattedObligation" where
  "formatObligation obligation pool =
     (case mapDeposits pool (filter (\<lambda>d. depositedAmount d \<noteq> 0) (deposits obligation))
             (Fin 0, Fin 0) of
        Inl e \<Rightarrow> Inl e
      | Inr (ds, minSupply, minLimit) \<Rightarrow>
          (case mapBorrows pool (filter (\<lambda>b. borrowedAmountWads b \<noteq> 0) (borrows obligation))
                  (Fin 0) of
             Inl e \<Rightarrow> Inl e
           | Inr (bs, maxWeighted) \<Rightarrow>
               Inr (aggregate obligation ds bs minSupply minLimit maxWeighted)))"

section \<open>Auxiliary definitions for the statements and proofs\<close>

text \<open>The entry and the accumulator summands of one position, given its reserve; the lemmas
  below show that the callbacks of \<^verbatim>\<open>formatObligation\<close> compute exactly these.\<close>

definition depositRecord :: "Reserve \<Rightarrow> DepositPosition \<Rightarrow> FormattedDeposit" where
  "depositRecord reserve d =
     \<lparr>dep_liquidationThreshold = liquidationThreshold reserve,
      dep_loanToValueRatio = loanToValueRatio reserve,
      dep_symbol = symbol reserve,
      dep_price = price reserve,
      dep_reserveAddress = depositReserve d,
      dep_amount = depositAmount reserve d,
      dep_amountUsd = bn_times (depositAmount reserve d) (price reserve)\<rparr>"

definition minPriceTerm :: "Reserve \<Rightarrow> DepositPosition \<Rightarrow> BigNumber" where
  "minPriceTerm reserve d = bn_times (depositAmount reserve d) (BigNumber_of (minPrice reserve))"

definition borrowRecord :: "Reserve \<Rightarrow> BorrowPosition \<Rightarrow> FormattedBorrow" where
  "borrowRecord reserve b =
     \<lparr>bor_liquidationThreshold = liquidationThreshold reserve,
      bor_loanToValueRatio = loanToValueRatio reserve,
      bor_symbol = symbol reserve,
      bor_price = price reserve,
      bor_reserveAddress = borrowReserve b,
      bor_amount = borrowAmount reserve b,
      bor_amountUsd = bn_times (borrowAmount reserve b) (price reserve),
      bor_weightedAmountUsd =
        bn_times (BigNumber_of (borrowWeight reserve))
          (bn_times (borrowAmount reserve b) (price reserve))\<rparr>"

definition maxPriceTerm :: "Reserve \<Rightarrow> BorrowPosition \<Rightarrow> BigNumber" where
  "maxPriceTerm reserve b =
     bn_times
       (bn_times (borrowAmount reserve b)
          (case emaPrice reserve of Some ema \<Rightarrow> bn_max ema (price reserve) | None \<Rightarrow> price reserve))
       (case borrowWeight reserve of Some w \<Rightarrow> w | None \<Rightarrow> U64_MAX)"

text \<open>The reserve that \<^verbatim>\<open>find\<close> returns for an address, where there is one; the positions
  that pass the two filters; and the condition under which neither \<^verbatim>\<open>throw\<close> is reached.\<close>

definition reserveOf :: "PoolType \<Rightarrow> string \<Rightarrow> Reserve" where
  "reserveOf pool a = the (findReserve pool a)"

definition nonzeroDeposits :: "Obligation \<Rightarrow> DepositPosition list" where
  "nonzeroDeposits obligation = filter (\<lambda>d. depositedAmount d \<noteq> 0) (deposits obligation)"

definition nonzeroBorrows :: "Obligation \<Rightarrow> BorrowPosition list" where
  "nonzeroBorrows obligation = filter (\<lambda>b. borrowedAmountWads b \<noteq> 0) (borrows obligation)"

definition reservesPresent :: "Obligation \<Rightarrow> PoolType \<Rightarrow> bool" where
  "reservesPresent obligation pool \<longleftrightarrow>
     list_all (\<lambda>d. findReserve pool (depositReserve d) \<noteq> None) (nonzeroDeposits obligation) \<and>
     list_all (\<lambda>b. findReserve pool (borrowReserve b) \<noteq> None) (nonzeroBorrows obligation)"

text \<open>An obligation without its zero-amount positions, and the report of an obligation that
  has no other positions.\<close>

definition dropZeroPositions :: "Obligation \<Rightarrow> Obligation" where
  "dropZeroPositions obligation =
     obligation\<lparr>deposits := nonzeroDeposits obligation, borrows := nonzeroBorrows obligation\<rparr>"

definition emptyReport :: "Obligation \<Rightarrow> FormattedObligation" where
  "emptyReport obligation =
     \<lparr>rep_address = pubkey obligation, positions = 0, rep_deposits = [], rep_borrows = [],
      poolAddress = lendingMarket obligation, totalSupplyValue = Fin 0, totalBorrowValue = Fin 0,
      borrowLimit = Fin 0, rep_liquidationThreshold = Fin 0, netAccountValue = Fin 0,
      liquidationThresholdFactor = Fin 0, borrowLimitFactor = Fin 0, borrowUtilization = Fin 0,
      weightedConservativeBorrowUtilization = Fin 0, weightedBorrowUtilization = Fin 0,
      isBorrowLimitReached = False, borrowOverSupply = Fin 0, weightedTotalBorrowValue = Fin 0,
      minPriceUserTotalSupply = Fin 0, minPriceBorrowLimit = Fin 0,
      maxPriceUserTotalWeightedBorrow = Fin 0\<rparr>"

text \<open>The rational carried by a finite value, the finite values that are not negative, the
  order of two finite values, and a reserve whose loan-to-value ratio is at most its
  liquidation threshold.\<close>

fun finVal :: "BigNumber \<Rightarrow> rat" where
  "finVal (Fin a) = a"
| "finVal PInf = 0"
| "finVal NInf = 0"
| "finVal NaN = 0"

fun nonNegative :: "BigNumber \<Rightarrow> bool" where
  "nonNegative (Fin a) = (0 \<le> a)"
| "nonNegative PInf = False"
| "nonNegative NInf = False"
| "nonNegative NaN = False"

fun leFinite :: "BigNumber \<Rightarrow> BigNumber \<Rightarrow> bool" where
  "leFinite (Fin a) (Fin b) = (a \<le> b)"
| "leFinite x y = False"

definition ltvWithinThreshold :: "Reserve \<Rightarrow> bool" where
  "ltvWithinThreshold reserve = leFinite (loanToValueRatio reserve) (liquidationThreshold reserve)"

text \<open>The three quantities of claim C3 as functions of the input: the conservative
  borrow-limit accumulator (the sum, over the non-zero deposits, of amount times
  \<^verbatim>\<open>minPrice\<close> times loan-to-value ratio), the nominal borrow limit (amount times \<^verbatim>\<open>price\<close>
  times loan-to-value ratio) and the weighted borrow total (\<^verbatim>\<open>borrowWeight\<close> times the value
  of each non-zero borrow).\<close>

definition conservativeBorrowLimit :: "Obligation \<Rightarrow> PoolType \<Rightarrow> BigNumber" where
  "conservativeBorrowLimit obligation pool =
     foldl (\<lambda>acc d. bn_plus acc
              (bn_times
                 (bn_times (depositAmount (reserveOf pool (depositReserve d)) d)
                    (BigNumber_of (minPrice (reserveOf pool (depositReserve d)))))
                 (loanToValueRatio (reserveOf pool (depositReserve d)))))
       (Fin 0) (nonzeroDeposits obligation)"

definition nominalBorrowLimit :: "Obligation \<Rightarrow> PoolType \<Rightarrow> BigNumber" where
  "nominalBorrowLimit obligation pool =
     foldl (\<lambda>acc d. bn_plus
              (bn_times
                 (bn_times (depositAmount (reserveOf pool (depositReserve d)) d)
                    (price (reserveOf pool (depositReserve d))))
                 (loanToValueRatio (reserveOf pool (depositReserve d))))
              acc)
       (Fin 0) (nonzeroDeposits obligation)"

definition weightedBorrowTotal :: "Obligation \<Rightarrow> PoolType \<Rightarrow> BigNumber" where
  "weightedBorrowTotal obligation pool =
     foldl (\<lambda>acc b. bn_plus acc
              (bn_times (BigNumber_of (borrowWeight (reserveOf pool (borrowReserve b))))
                 (bn_times (borrowAmount (reserveOf pool (borrowReserve b)) b)
                    (price (reserveOf pool (borrowReserve b))))))
       (Fin 0) (nonzeroBorrows obligation)"

text \<open>The quantities of claim C1 in its own words: the raw wad amount scaled by
  \<open>10^-(18 + decimals)\<close>, and the stored interest index scaled by \<open>10^-18\<close>.\<close>

definition rawAmount :: "Reserve \<Rightarrow> BorrowPosition \<Rightarrow> rat" where
  "rawAmount reserve b = of_int (borrowedAmountWads b) / 10 ^ (18 + decimals reserve)"

definition snapshotIndex :: "BorrowPosition \<Rightarrow> rat" where
  "snapshotIndex b = of_int (cumulativeBorrowRateWads b) / 10 ^ 18"

section \<open>Concrete inputs\<close>

text \<open>The reserves and positions of the spec's examples: 100 units deposited in a reserve
  with 6 decimals, price 2, loan-to-value ratio 0.8 and liquidation threshold 0.85, and 50
  units borrowed from a reserve priced 1 with no borrow weight, at an interest index equal to
  the one stored with the borrow. \<open>exampleReport\<close> is what \<^verbatim>\<open>formatObligation\<close> returns for
  them (lemma \<open>example_formats\<close>).\<close>

definition reserveA :: Reserve where
  "reserveA = \<lparr>address = ''A'', symbol = ''AAA'', decimals = 6, price = Fin 2, emaPrice = None,
     minPrice = Some (Fin 2), cTokenExchangeRate = Fin 1, cumulativeBorrowRate = Fin 1,
     loanToValueRatio = Fin (8 / 10), liquidationThreshold = Fin (85 / 100),
     borrowWeight = Some (Fin 1)\<rparr>"

definition reserveB :: Reserve where
  "reserveB = \<lparr>address = ''B'', symbol = ''BBB'', decimals = 6, price = Fin 1, emaPrice = None,
     minPrice = Some (Fin 1), cTokenExchangeRate = Fin 1, cumulativeBorrowRate = Fin 1,
     loanToValueRatio = Fin (8 / 10), liquidationThreshold = Fin (85 / 100),
     borrowWeight = None\<rparr>"

definition examplePool :: PoolType where
  "examplePool = \<lparr>reserves = [reserveA, reserveB]\<rparr>"

definition depositA :: DepositPosition where
  "depositA = \<lparr>depositReserve = ''A'', depositedAmount = 100000000\<rparr>"

definition borrowB :: BorrowPosition where
  "borrowB = \<lparr>borrowReserve = ''B'', borrowedAmountWads = 50000000000000000000000000,
     cumulativeBorrowRateWads = 1000000000000000000\<rparr>"

definition exampleObligation :: Obligation where
  "exampleObligation = \<lparr>pubkey = ''O'', lendingMarket = ''M'',
     deposits = [depositA], borrows = [borrowB]\<rparr>"

definition exampleReport :: FormattedObligation where
  "exampleReport =
     \<lparr>rep_address = ''O'', positions = 2,
      rep_deposits =
        [\<lparr>dep_liquidationThreshold = Fin (17 / 20), dep_loanToValueRatio = Fin (4 / 5),
          dep_symbol = ''AAA'', dep_price = Fin 2, dep_reserveAddress = ''A'',
          dep_amount = Fin 100, dep_amountUsd = Fin 200\<rparr>],
      rep_borrows =
        [\<lparr>bor_liquidationThreshold = Fin (17 / 20), bor_loanToValueRatio = Fin (4 / 5),
          bor_symbol = ''BBB'', bor_price = Fin 1, bor_reserveAddress = ''B'',
          bor_amount = Fin 50, bor_amountUsd = Fin 50, bor_weightedAmountUsd = NaN\<rparr>],
      poolAddress = ''M'', totalSupplyValue = Fin 200, totalBorrowValue = Fin 50,
      borrowLimit = Fin 160, rep_liquidationThreshold = Fin 170, netAccountValue = Fin 150,
      liquidationThresholdFactor = Fin (17 / 20), borrowLimitFactor = Fin (4 / 5),
      borrowUtilization = Fin (5 / 16),
      weightedConservativeBorrowUtilization = Fin (92233720368547758075 / 16),
      weightedBorrowUtilization = NaN, isBorrowLimitReached = False,
      borrowOverSupply = Fin (1 / 4), weightedTotalBorrowValue = NaN,
      minPriceUserTotalSupply = Fin 200, minPriceBorrowLimit = Fin 160,
      maxPriceUserTotalWeightedBorrow = Fin 922337203685477580750\<rparr>"

text \<open>Variations of the example, each with its report: a deposit in a reserve that the pool
  does not hold; a deposit reserve with \<^verbatim>\<open>minPrice\<close> 0 and a borrow weight of 2; a
  loan-to-value ratio of 0.3 and a borrow weight of 2; no deposit;
  added zero-amount positions, and nothing but zero-amount positions; a deposit reserve with
  price 0; a deposit of 200 units; a borrowed reserve whose interest index has doubled; a
  borrow of one wad; a deposit reserve without \<^verbatim>\<open>minPrice\<close>; a borrow whose stored interest
  index is 0.\<close>

definition missingObligation :: Obligation where
  "missingObligation = \<lparr>pubkey = ''O'', lendingMarket = ''M'',
     deposits = [depositA, \<lparr>depositReserve = ''C'', depositedAmount = 1\<rparr>], borrows = [borrowB]\<rparr>"

definition zeroMinPricePool :: PoolType where
  "zeroMinPricePool = \<lparr>reserves = [reserveA\<lparr>minPrice := Some (Fin 0)\<rparr>,
                                     reserveB\<lparr>borrowWeight := Some (Fin 2)\<rparr>]\<rparr>"

definition zeroMinPriceReport :: FormattedObligation where
  "zeroMinPriceReport =
     \<lparr>rep_address = ''O'', positions = 2,
      rep_deposits =
        [\<lparr>dep_liquidationThreshold = Fin (17 / 20), dep_loanToValueRatio = Fin (4 / 5),
          dep_symbol = ''AAA'', dep_price = Fin 2, dep_reserveAddress = ''A'',
          dep_amount = Fin 100, dep_amountUsd = Fin 200\<rparr>],
      rep_borrows =
        [\<lparr>bor_liquidationThreshold = Fin (17 / 20), bor_loanToValueRatio = Fin (4 / 5),
          bor_symbol = ''BBB'', bor_price = Fin 1, bor_reserveAddress = ''B'',
          bor_amount = Fin 50, bor_amountUsd = Fin 50, bor_weightedAmountUsd = Fin 100\<rparr>],
      poolAddress = ''M'', totalSupplyValue = Fin 200, totalBorrowValue = Fin 50,
      borrowLimit = Fin 160, rep_liquidationThreshold = Fin 170, netAccountValue = Fin 150,
      liquidationThresholdFactor = Fin (17 / 20), borrowLimitFactor = Fin (4 / 5),
      borrowUtilization = Fin (5 / 16), weightedConservativeBorrowUtilization = Fin 0,
      weightedBorrowUtilization = Fin 0, isBorrowLimitReached = False,
      borrowOverSupply = Fin (1 / 4), weightedTotalBorrowValue = Fin 100,
      minPriceUserTotalSupply = Fin 0, minPriceBorrowLimit = Fin 0,
      maxPriceUserTotalWeightedBorrow = Fin 100\<rparr>"

definition thirdsPool :: PoolType where
  "thirdsPool = \<lparr>reserves = [reserveA\<lparr>loanToValueRatio := Fin (3 / 10)\<rparr>,
                               reserveB\<lparr>borrowWeight := Some (Fin 2)\<rparr>]\<rparr>"

definition thirdsReport :: FormattedObligation where
  "thirdsReport =
     \<lparr>rep_address = ''O'', positions = 2,
      rep_deposits =
        [\<lparr>dep_liquidationThreshold = Fin (17 / 20), dep_loanToValueRatio = Fin (3 / 10),
          dep_symbol = ''AAA'', dep_price = Fin 2, dep_reserveAddress = ''A'',
          dep_amount = Fin 100, dep_amountUsd = Fin 200\<rparr>],
      rep_borrows =
        [\<lparr>bor_liquidationThreshold = Fin (17 / 20), bor_loanToValueRatio = Fin (4 / 5),
          bor_symbol = ''BBB'', bor_price = Fin 1, bor_reserveAddress = ''B'',
          bor_amount = Fin 50, bor_amountUsd = Fin 50, bor_weightedAmountUsd = Fin 100\<rparr>],
      poolAddress = ''M'', totalSupplyValue = Fin 200, totalBorrowValue = Fin 50,
      borrowLimit = Fin 60, rep_liquidationThreshold = Fin 170, netAccountValue = Fin 150,
      liquidationThresholdFactor = Fin (17 / 20), borrowLimitFactor = Fin (3 / 10),
      borrowUtilization = Fin (83333333333333333333 / 100000000000000000000),
      weightedConservativeBorrowUtilization =
        Fin (166666666666666666667 / 100000000000000000000),
      weightedBorrowUtilization = Fin (166666666666666666667 / 100000000000000000000),
      isBorrowLimitReached = False, borrowOverSupply = Fin (1 / 4),
      weightedTotalBorrowValue = Fin 100, minPriceUserTotalSupply = Fin 200,
      minPriceBorrowLimit = Fin 60, maxPriceUserTotalWeightedBorrow = Fin 100\<rparr>"

definition borrowOnlyObligation :: Obligation where
  "borrowOnlyObligation = \<lparr>pubkey = ''O'', lendingMarket = ''M'', deposits = [], borrows = [borrowB]\<rparr>"

definition borrowOnlyReport :: FormattedObligation where
  "borrowOnlyReport =
     \<lparr>rep_address = ''O'', positions = 1, rep_deposits = [],
      rep_borrows =
        [\<lparr>bor_liquidationThreshold = Fin (17 / 20), bor_loanToValueRatio = Fin (4 / 5),
          bor_symbol = ''BBB'', bor_price = Fin 1, bor_reserveAddress = ''B'',
          bor_amount = Fin 50, bor_amountUsd = Fin 50, bor_weightedAmountUsd = NaN\<rparr>],
      poolAddress = ''M'', totalSupplyValue = Fin 0, totalBorrowValue = Fin 50,
      borrowLimit = Fin 0, rep_liquidationThreshold = Fin 0, netAccountValue = Fin (- 50),
      liquidationThresholdFactor = Fin 0, borrowLimitFactor = Fin 0, borrowUtilization = Fin 0,
      weightedConservativeBorrowUtilization = Fin 0, weightedBorrowUtilization = Fin 0,
      isBorrowLimitReached = False, borrowOverSupply = Fin 0, weightedTotalBorrowValue = NaN,
      minPriceUserTotalSupply = Fin 0, minPriceBorrowLimit = Fin 0,
      maxPriceUserTotalWeightedBorrow = Fin 922337203685477580750\<rparr>"

definition paddedObligation :: Obligation where
  "paddedObligation = \<lparr>pubkey = ''O'', lendingMarket = ''M'',
     deposits = [\<lparr>depositReserve = ''C'', depositedAmount = 0\<rparr>, depositA],
     borrows = [borrowB, \<lparr>borrowReserve = ''B'', borrowedAmountWads = 0,
                          cumulativeBorrowRateWads = 1000000000000000000\<rparr>]\<rparr>"

definition inertObligation :: Obligation where
  "inertObligation = \<lparr>pubkey = ''O'', lendingMarket = ''M'',
     deposits = [\<lparr>depositReserve = ''C'', depositedAmount = 0\<rparr>],
     borrows = [\<lparr>borrowReserve = ''B'', borrowedAmountWads = 0,
                 cumulativeBorrowRateWads = 1000000000000000000\<rparr>]\<rparr>"

definition zeroPricePool :: PoolType where
  "zeroPricePool = \<lparr>reserves = [reserveA\<lparr>price := Fin 0, minPrice := Some (Fin 0)\<rparr>, reserveB]\<rparr>"

definition zeroPriceReport :: FormattedObligation where
  "zeroPriceReport =
     \<lparr>rep_address = ''O'', positions = 2,
      rep_deposits =
        [\<lparr>dep_liquidationThreshold = Fin (17 / 20), dep_loanToValueRatio = Fin (4 / 5),
          dep_symbol = ''AAA'', dep_price = Fin 0, dep_reserveAddress = ''A'',
          dep_amount = Fin 100, dep_amountUsd = Fin 0\<rparr>],
      rep_borrows =
        [\<lparr>bor_liquidationThreshold = Fin (17 / 20), bor_loanToValueRatio = Fin (4 / 5),
          bor_symbol = ''BBB'', bor_price = Fin 1, bor_reserveAddress = ''B'',
          bor_amount = Fin 50, bor_amountUsd = Fin 50, bor_weightedAmountUsd = NaN\<rparr>],
      poolAddress = ''M'', totalSupplyValue = Fin 0, totalBorrowValue = Fin 50,
      borrowLimit = Fin 0, rep_liquidationThreshold = Fin 0, netAccountValue = Fin (- 50),
      liquidationThresholdFactor = Fin 0, borrowLimitFactor = Fin 0, borrowUtilization = Fin 0,
      weightedConservativeBorrowUtilization = Fin 0, weightedBorrowUtilization = Fin 0,
      isBorrowLimitReached = False, borrowOverSupply = Fin 0, weightedTotalBorrowValue = NaN,
      minPriceUserTotalSupply = Fin 0, minPriceBorrowLimit = Fin 0,
      maxPriceUserTotalWeightedBorrow = Fin 922337203685477580750\<rparr>"

definition largerDepositObligation :: Obligation where
  "largerDepositObligation = \<lparr>pubkey = ''O'', lendingMarket = ''M'',
     deposits = [\<lparr>depositReserve = ''A'', depositedAmount = 200000000\<rparr>], borrows = [borrowB]\<rparr>"

definition largerDepositReport :: FormattedObligation where
  "largerDepositReport =
     \<lparr>rep_address = ''O'', positions = 2,
      rep_deposits =
        [\<lparr>dep_liquidationThreshold = Fin (17 / 20), dep_loanToValueRatio = Fin (4 / 5),
          dep_symbol = ''AAA'', dep_price = Fin 2, dep_reserveAddress = ''A'',
          dep_amount = Fin 200, dep_amountUsd = Fin 400\<rparr>],
      rep_borrows =
        [\<lparr>bor_liquidationThreshold = Fin (17 / 20), bor_loanToValueRatio = Fin (4 / 5),
          bor_symbol = ''BBB'', bor_price = Fin 1, bor_reserveAddress = ''B'',
          bor_amount = Fin 50, bor_amountUsd = Fin 50, bor_weightedAmountUsd = NaN\<rparr>],
      poolAddress = ''M'', totalSupplyValue = Fin 400, totalBorrowValue = Fin 50,
      borrowLimit = Fin 320, rep_liquidationThreshold = Fin 340, netAccountValue = Fin 350,
      liquidationThresholdFactor = Fin (17 / 20), borrowLimitFactor = Fin (4 / 5),
      borrowUtilization = Fin (5 / 32),
      weightedConservativeBorrowUtilization = Fin (92233720368547758075 / 32),
      weightedBorrowUtilization = NaN, isBorrowLimitReached = False,
      borrowOverSupply = Fin (1 / 8), weightedTotalBorrowValue = NaN,
      minPriceUserTotalSupply = Fin 400, minPriceBorrowLimit = Fin 320,
      maxPriceUserTotalWeightedBorrow = Fin 922337203685477580750\<rparr>"

definition doubledReserveB :: Reserve where
  "doubledReserveB = reserveB\<lparr>cumulativeBorrowRate := Fin 2\<rparr>"

definition doubledPool :: PoolType where
  "doubledPool = \<lparr>reserves = [reserveA, doubledReserveB]\<rparr>"

definition doubledReport :: FormattedObligation where
  "doubledReport =
     \<lparr>rep_address = ''O'', positions = 2,
      rep_deposits =
        [\<lparr>dep_liquidationThreshold = Fin (17 / 20), dep_loanToValueRatio = Fin (4 / 5),
          dep_symbol = ''AAA'', dep_price = Fin 2, dep_reserveAddress = ''A'',
          dep_amount = Fin 100, dep_amountUsd = Fin 200\<rparr>],
      rep_borrows =
        [\<lparr>bor_liquidationThreshold = Fin (17 / 20), bor_loanToValueRatio = Fin (4 / 5),
          bor_symbol = ''BBB'', bor_price = Fin 1, bor_reserveAddress = ''B'',
          bor_amount = Fin 100, bor_amountUsd = Fin 100, bor_weightedAmountUsd = NaN\<rparr>],
      poolAddress = ''M'', totalSupplyValue = Fin 200, totalBorrowValue = Fin 100,
      borrowLimit = Fin 160, rep_liquidationThreshold = Fin 170, netAccountValue = Fin 100,
      liquidationThresholdFactor = Fin (17 / 20), borrowLimitFactor = Fin (4 / 5),
      borrowUtilization = Fin (5 / 8),
      weightedConservativeBorrowUtilization = Fin (92233720368547758075 / 8),
      weightedBorrowUtilization = NaN, isBorrowLimitReached = False,
      borrowOverSupply = Fin (1 / 2), weightedTotalBorrowValue = NaN,
      minPriceUserTotalSupply = Fin 200, minPriceBorrowLimit = Fin 160,
      maxPriceUserTotalWeightedBorrow = Fin 1844674407370955161500\<rparr>"

definition dustBorrow :: BorrowPosition where
  "dustBorrow = \<lparr>borrowReserve = ''B'', borrowedAmountWads = 1,
     cumulativeBorrowRateWads = 1000000000000000000\<rparr>"

definition dustObligation :: Obligation where
  "dustObligation = \<lparr>pubkey = ''O'', lendingMarket = ''M'', deposits = [depositA],
     borrows = [dustBorrow]\<rparr>"

definition dustReport :: FormattedObligation where
  "dustReport =
     \<lparr>rep_address = ''O'', positions = 2,
      rep_deposits =
        [\<lparr>dep_liquidationThreshold = Fin (17 / 20), dep_loanToValueRatio = Fin (4 / 5),
          dep_symbol = ''AAA'', dep_price = Fin 2, dep_reserveAddress = ''A'',
          dep_amount = Fin 100, dep_amountUsd = Fin 200\<rparr>],
      rep_borrows =
        [\<lparr>bor_liquidationThreshold = Fin (17 / 20), bor_loanToValueRatio = Fin (4 / 5),
          bor_symbol = ''BBB'', bor_price = Fin 1, bor_reserveAddress = ''B'',
          bor_amount = Fin 0, bor_amountUsd = Fin 0, bor_weightedAmountUsd = NaN\<rparr>],
      poolAddress = ''M'', totalSupplyValue = Fin 200, totalBorrowValue = Fin 0,
      borrowLimit = Fin 160, rep_liquidationThreshold = Fin 170, netAccountValue = Fin 200,
      liquidationThresholdFactor = Fin (17 / 20), borrowLimitFactor = Fin (4 / 5),
      borrowUtilization = Fin 0, weightedConservativeBorrowUtilization = Fin 0,
      weightedBorrowUtilization = NaN, isBorrowLimitReached = False,
      borrowOverSupply = Fin 0, weightedTotalBorrowValue = NaN,
      minPriceUserTotalSupply = Fin 200, minPriceBorrowLimit = Fin 160,
      maxPriceUserTotalWeightedBorrow = Fin 0\<rparr>"

definition noMinPriceReserveA :: Reserve where
  "noMinPriceReserveA = reserveA\<lparr>minPrice := None\<rparr>"

definition noMinPricePool :: PoolType where
  "noMinPricePool = \<lparr>reserves = [noMinPriceReserveA, reserveB]\<rparr>"

definition noMinPriceReport :: FormattedObligation where
  "noMinPriceReport =
     \<lparr>rep_address = ''O'', positions = 2,
      rep_deposits =
        [\<lparr>dep_liquidationThreshold = Fin (17 / 20), dep_loanToValueRatio = Fin (4 / 5),
          dep_symbol = ''AAA'', dep_price = Fin 2, dep_reserveAddress = ''A'',
          dep_amount = Fin 100, dep_amountUsd = Fin 200\<rparr>],
      rep_borrows =
        [\<lparr>bor_liquidationThreshold = Fin (17 / 20), bor_loanToValueRatio = Fin (4 / 5),
          bor_symbol = ''BBB'', bor_price = Fin 1, bor_reserveAddress = ''B'',
          bor_amount = Fin 50, bor_amountUsd = Fin 50, bor_weightedAmountUsd = NaN\<rparr>],
      poolAddress = ''M'', totalSupplyValue = Fin 200, totalBorrowValue = Fin 50,
      borrowLimit = Fin 160, rep_liquidationThreshold = Fin 170, netAccountValue = Fin 150,
      liquidationThresholdFactor = Fin (17 / 20), borrowLimitFactor = Fin (4 / 5),
      borrowUtilization = Fin (5 / 16), weightedConservativeBorrowUtilization = NaN,
      weightedBorrowUtilization = NaN, isBorrowLimitReached = False,
      borrowOverSupply = Fin (1 / 4), weightedTotalBorrowValue = NaN,
      minPriceUserTotalSupply = NaN, minPriceBorrowLimit = NaN,
      maxPriceUserTotalWeightedBorrow = Fin 922337203685477580750\<rparr>"

definition zeroIndexBorrow :: BorrowPosition where
  "zeroIndexBorrow = \<lparr>borrowReserve = ''B'', borrowedAmountWads = 50000000000000000000000000,
     cumulativeBorrowRateWads = 0\<rparr>"

definition zeroIndexObligation :: Obligation where
  "zeroIndexObligation = \<lparr>pubkey = ''O'', lendingMarket = ''M'', deposits = [depositA],
     borrows = [zeroIndexBorrow]\<rparr>"

definition zeroIndexReport :: FormattedObligation where
  "zeroIndexReport =
     \<lparr>rep_address = ''O'', positions = 2,
      rep_deposits =
        [\<lparr>dep_liquidationThreshold = Fin (17 / 20), dep_loanToValueRatio = Fin (4 / 5),
          dep_symbol = ''AAA'', dep_price = Fin 2, dep_reserveAddress = ''A'',
          dep_amount = Fin 100, dep_amountUsd = Fin 200\<rparr>],
      rep_borrows =
        [\<lparr>bor_liquidationThreshold = Fin (17 / 20), bor_loanToValueRatio = Fin (4 / 5),
          bor_symbol = ''BBB'', bor_price = Fin 1, bor_reserveAddress = ''B'',
          bor_amount = PInf, bor_amountUsd = PInf, bor_weightedAmountUsd = NaN\<rparr>],
      poolAddress = ''M'', totalSupplyValue = Fin 200, totalBorrowValue = PInf,
      borrowLimit = Fin 160, rep_liquidationThreshold = Fin 170, netAccountValue = NInf,
      liquidationThresholdFactor = Fin (17 / 20), borrowLimitFactor = Fin (4 / 5),
      borrowUtilization = PInf, weightedConservativeBorrowUtilization = PInf,
      weightedBorrowUtilization = NaN, isBorrowLimitReached = True,
      borrowOverSupply = PInf, weightedTotalBorrowValue = NaN,
      minPriceUserTotalSupply = Fin 200, minPriceBorrowLimit = Fin 160,
      maxPriceUserTotalWeightedBorrow = PInf\<rparr>"

section \<open>Evaluation\<close>

lemma round_rat_numeral_divide:
  "round (numeral a / numeral b :: rat) = (2 * numeral a + numeral b) div (2 * numeral b)"
proof -
  have "(numeral a / numeral b :: rat) + 1 / 2 = of_int (2 * numeral a + numeral b) / of_int (2 * numeral b)"
    by (simp add: field_simps)
  then show ?thesis
    unfolding round_def by (simp only: floor_divide_of_int_eq)
qed

lemma round_rat_one_divide:
  "round (1 / numeral b :: rat) = (2 + numeral b) div (2 * numeral b)"
proof -
  have "(1 / numeral b :: rat) + 1 / 2 = of_int (2 + numeral b) / of_int (2 * numeral b)"
    by (simp add: field_simps)
  then show ?thesis
    unfolding round_def by (simp only: floor_divide_of_int_eq)
qed

lemmas fo_eval =
  formatObligation_def depositEntry_def borrowEntry_def findReserve_def aggregate_def
  depositAmount_def borrowAmount_def shiftedBy_def isZero_def round_half_up_def
  DECIMAL_PLACES_def round_rat_numeral_divide round_rat_one_divide Let_def U64_MAX_def bn_minus_def
  isGreaterThanOrEqualTo_def isLessThanOrEqualTo_def isGreaterThan_def isLessThan_def bn_max_def

lemmas ex_defs = reserveA_def reserveB_def examplePool_def depositA_def borrowB_def
  exampleObligation_def

lemma example_formats: "formatObligation exampleObligation examplePool = Inr exampleReport"
  by (simp add: ex_defs fo_eval exampleReport_def)

lemma missing_formats: "formatObligation missingObligation examplePool = Inl DepositReserveMissing"
  by (simp add: ex_defs missingObligation_def fo_eval)

lemma zeroMinPrice_formats:
  "formatObligation exampleObligation zeroMinPricePool = Inr zeroMinPriceReport"
  by (simp add: ex_defs zeroMinPricePool_def fo_eval zeroMinPriceReport_def)

lemma thirds_formats: "formatObligation exampleObligation thirdsPool = Inr thirdsReport"
  by (simp add: ex_defs thirdsPool_def fo_eval thirdsReport_def)

lemma borrowOnly_formats:
  "formatObligation borrowOnlyObligation examplePool = Inr borrowOnlyReport"
  by (simp add: ex_defs borrowOnlyObligation_def fo_eval borrowOnlyReport_def)

lemma padded_formats: "formatObligation paddedObligation examplePool = Inr exampleReport"
  by (simp add: ex_defs paddedObligation_def fo_eval exampleReport_def)

lemma zeroPrice_formats: "formatObligation exampleObligation zeroPricePool = Inr zeroPriceReport"
  by (simp add: ex_defs zeroPricePool_def fo_eval zeroPriceReport_def)

lemma largerDeposit_formats:
  "formatObligation largerDepositObligation examplePool = Inr largerDepositReport"
  by (simp add: ex_defs largerDepositObligation_def fo_eval largerDepositReport_def)

lemma doubled_formats: "formatObligation exampleObligation doubledPool = Inr doubledReport"
  by (simp add: ex_defs doubledPool_def doubledReserveB_def fo_eval doubledReport_def)

lemma dust_formats: "formatObligation dustObligation doubledPool = Inr dustReport"
  by (simp add: ex_defs dustObligation_def dustBorrow_def doubledPool_def doubledReserveB_def fo_eval dustReport_def)

lemma noMinPrice_formats: "formatObligation exampleObligation noMinPricePool = Inr noMinPriceReport"
  by (simp add: ex_defs noMinPricePool_def noMinPriceReserveA_def fo_eval noMinPriceReport_def)

lemma zeroIndex_formats: "formatObligation zeroIndexObligation examplePool = Inr zeroIndexReport"
  by (simp add: ex_defs zeroIndexObligation_def zeroIndexBorrow_def fo_eval zeroIndexReport_def)

section \<open>What the two maps return\<close>

lemma depositEntry_missing:
  "findReserve pool (depositReserve d) = None \<Longrightarrow> depositEntry pool d acc = Inl DepositReserveMissing"
  by (simp add: depositEntry_def)

lemma depositEntry_found:
  "findReserve pool (depositReserve d) = Some reserve \<Longrightarrow>
   depositEntry pool d acc =
     Inr (depositRecord reserve d, bn_plus (fst acc) (minPriceTerm reserve d),
          bn_plus (snd acc) (bn_times (minPriceTerm reserve d) (loanToValueRatio reserve)))"
  by (simp add: depositEntry_def depositRecord_def minPriceTerm_def Let_def)

lemma borrowEntry_missing:
  "findReserve pool (borrowReserve b) = None \<Longrightarrow> borrowEntry pool b acc = Inl BorrowReserveMissing"
  by (simp add: borrowEntry_def)

lemma borrowEntry_found:
  "findReserve pool (borrowReserve b) = Some reserve \<Longrightarrow>
   borrowEntry pool b acc = Inr (borrowRecord reserve b, bn_plus acc (maxPriceTerm reserve b))"
  by (simp add: borrowEntry_def borrowRecord_def maxPriceTerm_def Let_def)

lemma mapDeposits_missing:
  "\<exists>d\<in>set ds. findReserve pool (depositReserve d) = None \<Longrightarrow>
   mapDeposits pool ds acc = Inl DepositReserveMissing"
proof (induction ds arbitrary: acc)
  case Nil
  then show ?case by simp
next
  case (Cons d ds)
  show ?case
  proof (cases "findReserve pool (depositReserve d)")
    case None
    then show ?thesis by (simp add: depositEntry_missing)
  next
    case (Some reserve)
    with Cons.prems have "\<exists>d\<in>set ds. findReserve pool (depositReserve d) = None" by auto
    then show ?thesis using Some by (simp add: depositEntry_found Cons.IH)
  qed
qed

lemma mapDeposits_found:
  "\<forall>d\<in>set ds. findReserve pool (depositReserve d) \<noteq> None \<Longrightarrow>
   mapDeposits pool ds acc =
     Inr (map (\<lambda>d. depositRecord (reserveOf pool (depositReserve d)) d) ds,
          foldl (\<lambda>s d. bn_plus s (minPriceTerm (reserveOf pool (depositReserve d)) d)) (fst acc) ds,
          foldl (\<lambda>s d. bn_plus s (bn_times (minPriceTerm (reserveOf pool (depositReserve d)) d)
                                    (loanToValueRatio (reserveOf pool (depositReserve d)))))
            (snd acc) ds)"
proof (induction ds arbitrary: acc)
  case Nil
  then show ?case by simp
next
  case (Cons d ds)
  then obtain reserve where r: "findReserve pool (depositReserve d) = Some reserve" by auto
  have "\<forall>d\<in>set ds. findReserve pool (depositReserve d) \<noteq> None" using Cons.prems by simp
  from Cons.IH [OF this] show ?case using r
    by (simp add: depositEntry_found reserveOf_def)
qed

lemma mapBorrows_missing:
  "\<exists>b\<in>set bs. findReserve pool (borrowReserve b) = None \<Longrightarrow>
   mapBorrows pool bs acc = Inl BorrowReserveMissing"
proof (induction bs arbitrary: acc)
  case Nil
  then show ?case by simp
next
  case (Cons b bs)
  show ?case
  proof (cases "findReserve pool (borrowReserve b)")
    case None
    then show ?thesis by (simp add: borrowEntry_missing)
  next
    case (Some reserve)
    with Cons.prems have "\<exists>b\<in>set bs. findReserve pool (borrowReserve b) = None" by auto
    then show ?thesis using Some by (simp add: borrowEntry_found Cons.IH)
  qed
qed

lemma mapBorrows_found:
  "\<forall>b\<in>set bs. findReserve pool (borrowReserve b) \<noteq> None \<Longrightarrow>
   mapBorrows pool bs acc =
     Inr (map (\<lambda>b. borrowRecord (reserveOf pool (borrowReserve b)) b) bs,
          foldl (\<lambda>s b. bn_plus s (maxPriceTerm (reserveOf pool (borrowReserve b)) b)) acc bs)"
proof (induction bs arbitrary: acc)
  case Nil
  then show ?case by simp
next
  case (Cons b bs)
  then obtain reserve where r: "findReserve pool (borrowReserve b) = Some reserve" by auto
  have "\<forall>b\<in>set bs. findReserve pool (borrowReserve b) \<noteq> None" using Cons.prems by simp
  from Cons.IH [OF this] show ?case using r
    by (simp add: borrowEntry_found reserveOf_def)
qed

lemma formatObligation_found:
  assumes "reservesPresent obligation pool"
  shows "formatObligation obligation pool =
     Inr (aggregate obligation
       (map (\<lambda>d. depositRecord (reserveOf pool (depositReserve d)) d) (nonzeroDeposits obligation))
       (map (\<lambda>b. borrowRecord (reserveOf pool (borrowReserve b)) b) (nonzeroBorrows obligation))
       (foldl (\<lambda>s d. bn_plus s (minPriceTerm (reserveOf pool (depositReserve d)) d)) (Fin 0)
          (nonzeroDeposits obligation))
       (foldl (\<lambda>s d. bn_plus s (bn_times (minPriceTerm (reserveOf pool (depositReserve d)) d)
                                    (loanToValueRatio (reserveOf pool (depositReserve d)))))
          (Fin 0) (nonzeroDeposits obligation))
       (foldl (\<lambda>s b. bn_plus s (maxPriceTerm (reserveOf pool (borrowReserve b)) b)) (Fin 0)
          (nonzeroBorrows obligation)))"
proof -
  have d: "\<forall>d\<in>set (nonzeroDeposits obligation). findReserve pool (depositReserve d) \<noteq> None"
    and b: "\<forall>b\<in>set (nonzeroBorrows obligation). findReserve pool (borrowReserve b) \<noteq> None"
    using assms by (simp_all add: reservesPresent_def list_all_iff)
  show ?thesis
    unfolding formatObligation_def nonzeroDeposits_def [symmetric] nonzeroBorrows_def [symmetric]
    by (simp add: mapDeposits_found [OF d] mapBorrows_found [OF b])
qed

lemma formatObligation_missing:
  assumes "\<not> reservesPresent obligation pool"
  shows "\<exists>e. formatObligation obligation pool = Inl e"
proof (cases "\<exists>d\<in>set (nonzeroDeposits obligation). findReserve pool (depositReserve d) = None")
  case True
  then show ?thesis
    unfolding formatObligation_def nonzeroDeposits_def [symmetric]
    by (simp add: mapDeposits_missing)
next
  case False
  then have d: "\<forall>d\<in>set (nonzeroDeposits obligation). findReserve pool (depositReserve d) \<noteq> None"
    by simp
  with assms have "\<exists>b\<in>set (nonzeroBorrows obligation). findReserve pool (borrowReserve b) = None"
    by (auto simp: reservesPresent_def list_all_iff)
  then show ?thesis
    unfolding formatObligation_def nonzeroDeposits_def [symmetric] nonzeroBorrows_def [symmetric]
    by (simp add: mapDeposits_found [OF d] mapBorrows_missing)
qed

lemma formatObligation_Inr_iff:
  "(\<exists>r. formatObligation obligation pool = Inr r) \<longleftrightarrow> reservesPresent obligation pool"
  using formatObligation_found [of obligation pool] formatObligation_missing [of obligation pool]
  by (cases "reservesPresent obligation pool") auto

section \<open>The totals and ratios of a report\<close>

lemma aggregate_lists [simp]:
  "rep_deposits (aggregate ob ds bs s l w) = ds"
  "rep_borrows (aggregate ob ds bs s l w) = bs"
  "minPriceUserTotalSupply (aggregate ob ds bs s l w) = s"
  "minPriceBorrowLimit (aggregate ob ds bs s l w) = l"
  "maxPriceUserTotalWeightedBorrow (aggregate ob ds bs s l w) = w"
  by (simp_all add: aggregate_def Let_def)

lemma aggregate_totals:
  "totalSupplyValue (aggregate ob ds bs s l w) =
     foldl (\<lambda>acc d. bn_plus acc (dep_amountUsd d)) (Fin 0) ds"
  "totalBorrowValue (aggregate ob ds bs s l w) =
     foldl (\<lambda>acc b. bn_plus acc (bor_amountUsd b)) (Fin 0) bs"
  "weightedTotalBorrowValue (aggregate ob ds bs s l w) =
     foldl (\<lambda>acc b. bn_plus acc (bor_weightedAmountUsd b)) (Fin 0) bs"
  "borrowLimit (aggregate ob ds bs s l w) =
     foldl (\<lambda>acc d. bn_plus (bn_times (dep_amountUsd d) (dep_loanToValueRatio d)) acc) (Fin 0) ds"
  "rep_liquidationThreshold (aggregate ob ds bs s l w) =
     foldl (\<lambda>acc d. bn_plus (bn_times (dep_amountUsd d) (dep_liquidationThreshold d)) acc) (Fin 0) ds"
  by (simp_all add: aggregate_def Let_def)

lemma aggregate_ratios:
  "liquidationThresholdFactor (aggregate ob ds bs s l w) =
     (if isZero (totalSupplyValue (aggregate ob ds bs s l w)) then Fin 0
      else dividedBy (rep_liquidationThreshold (aggregate ob ds bs s l w))
             (totalSupplyValue (aggregate ob ds bs s l w)))"
  "borrowLimitFactor (aggregate ob ds bs s l w) =
     (if isZero (totalSupplyValue (aggregate ob ds bs s l w)) then Fin 0
      else dividedBy (borrowLimit (aggregate ob ds bs s l w))
             (totalSupplyValue (aggregate ob ds bs s l w)))"
  "borrowUtilization (aggregate ob ds bs s l w) =
     (if isZero (borrowLimit (aggregate ob ds bs s l w)) then Fin 0
      else dividedBy (totalBorrowValue (aggregate ob ds bs s l w))
             (borrowLimit (aggregate ob ds bs s l w)))"
  "weightedBorrowUtilization (aggregate ob ds bs s l w) =
     (if isZero l then Fin 0
      else dividedBy (weightedTotalBorrowValue (aggregate ob ds bs s l w))
             (borrowLimit (aggregate ob ds bs s l w)))"
  "weightedConservativeBorrowUtilization (aggregate ob ds bs s l w) =
     (if isZero l then Fin 0 else dividedBy w l)"
  "borrowOverSupply (aggregate ob ds bs s l w) =
     (if isZero (totalSupplyValue (aggregate ob ds bs s l w)) then Fin 0
      else dividedBy (totalBorrowValue (aggregate ob ds bs s l w))
             (totalSupplyValue (aggregate ob ds bs s l w)))"
  "netAccountValue (aggregate ob ds bs s l w) =
     bn_minus (totalSupplyValue (aggregate ob ds bs s l w))
       (totalBorrowValue (aggregate ob ds bs s l w))"
  "isBorrowLimitReached (aggregate ob ds bs s l w) =
     isGreaterThanOrEqualTo (borrowUtilization (aggregate ob ds bs s l w)) (Fin 1)"
  "positions (aggregate ob ds bs s l w) =
     length (nonzeroDeposits ob) + length (nonzeroBorrows ob)"
  by (simp_all add: aggregate_def Let_def nonzeroDeposits_def nonzeroBorrows_def)

lemma formatObligation_aggregate:
  assumes "formatObligation obligation pool = Inr r"
  shows "r = aggregate obligation (rep_deposits r) (rep_borrows r) (minPriceUserTotalSupply r)
               (minPriceBorrowLimit r) (maxPriceUserTotalWeightedBorrow r)"
proof -
  from assms obtain ds bs s l w where "r = aggregate obligation ds bs s l w"
    by (auto simp: formatObligation_def split: sum.splits)
  then show ?thesis by (simp only: aggregate_lists)
qed

lemma formatObligation_entries:
  assumes "formatObligation obligation pool = Inr r"
  shows "rep_deposits r =
           map (\<lambda>d. depositRecord (reserveOf pool (depositReserve d)) d) (nonzeroDeposits obligation)"
    and "rep_borrows r =
           map (\<lambda>b. borrowRecord (reserveOf pool (borrowReserve b)) b) (nonzeroBorrows obligation)"
    and "list_all (\<lambda>d. findReserve pool (depositReserve d) \<noteq> None) (nonzeroDeposits obligation)"
    and "list_all (\<lambda>b. findReserve pool (borrowReserve b) \<noteq> None) (nonzeroBorrows obligation)"
proof -
  have p: "reservesPresent obligation pool"
    using assms formatObligation_Inr_iff by blast
  from formatObligation_found [OF p] assms
  show "rep_deposits r =
           map (\<lambda>d. depositRecord (reserveOf pool (depositReserve d)) d) (nonzeroDeposits obligation)"
    and "rep_borrows r =
           map (\<lambda>b. borrowRecord (reserveOf pool (borrowReserve b)) b) (nonzeroBorrows obligation)"
    by auto
  from p show "list_all (\<lambda>d. findReserve pool (depositReserve d) \<noteq> None) (nonzeroDeposits obligation)"
    and "list_all (\<lambda>b. findReserve pool (borrowReserve b) \<noteq> None) (nonzeroBorrows obligation)"
    by (simp_all add: reservesPresent_def)
qed

lemma formatObligation_inputs:
  assumes "formatObligation obligation pool = Inr r"
  shows "minPriceBorrowLimit r = conservativeBorrowLimit obligation pool"
    and "borrowLimit r = nominalBorrowLimit obligation pool"
    and "weightedTotalBorrowValue r = weightedBorrowTotal obligation pool"
proof -
  have p: "reservesPresent obligation pool"
    using assms formatObligation_Inr_iff by blast
  note f = formatObligation_found [OF p]
  from f assms show "minPriceBorrowLimit r = conservativeBorrowLimit obligation pool"
    by (auto simp: conservativeBorrowLimit_def minPriceTerm_def)
  from f assms have "borrowLimit r =
      foldl (\<lambda>acc d. bn_plus (bn_times (dep_amountUsd d) (dep_loanToValueRatio d)) acc) (Fin 0)
        (map (\<lambda>d. depositRecord (reserveOf pool (depositReserve d)) d) (nonzeroDeposits obligation))"
    by (auto simp: aggregate_totals)
  then show "borrowLimit r = nominalBorrowLimit obligation pool"
    by (simp add: foldl_map depositRecord_def nominalBorrowLimit_def)
  from f assms have "weightedTotalBorrowValue r =
      foldl (\<lambda>acc b. bn_plus acc (bor_weightedAmountUsd b)) (Fin 0)
        (map (\<lambda>b. borrowRecord (reserveOf pool (borrowReserve b)) b) (nonzeroBorrows obligation))"
    by (auto simp: aggregate_totals)
  then show "weightedTotalBorrowValue r = weightedBorrowTotal obligation pool"
    by (simp add: foldl_map borrowRecord_def weightedBorrowTotal_def)
qed

section \<open>Sums of finite values\<close>

lemma nonNegative_Fin: "nonNegative x \<Longrightarrow> \<exists>a. x = Fin a \<and> 0 \<le> a"
  by (cases x) simp_all

lemma leFinite_Fin: "leFinite x y \<Longrightarrow> \<exists>a b. x = Fin a \<and> y = Fin b \<and> a \<le> b"
  by (cases x; cases y) simp_all

lemma isFinite_Fin: "isFinite x \<Longrightarrow> x = Fin (finVal x)"
  by (cases x) simp_all

lemma nonNegative_isFinite: "nonNegative x \<Longrightarrow> isFinite x"
  by (cases x) simp_all

lemma nonNegative_finVal: "nonNegative x \<Longrightarrow> 0 \<le> finVal x"
  by (cases x) simp_all

lemma bn_times_finite: "isFinite x \<Longrightarrow> isFinite y \<Longrightarrow> bn_times x y = Fin (finVal x * finVal y)"
  by (cases x; cases y) simp_all

lemma foldl_plus_finite:
  "(\<And>x. x \<in> set xs \<Longrightarrow> isFinite (f x)) \<Longrightarrow>
   foldl (\<lambda>acc x. bn_plus acc (f x)) (Fin a) xs = Fin (a + sum_list (map (\<lambda>x. finVal (f x)) xs))"
proof (induction xs arbitrary: a)
  case Nil
  then show ?case by simp
next
  case (Cons x xs)
  have fx: "f x = Fin (finVal (f x))" using Cons.prems [of x] by (simp add: isFinite_Fin)
  have "foldl (\<lambda>acc x. bn_plus acc (f x)) (Fin a) (x # xs) =
        foldl (\<lambda>acc x. bn_plus acc (f x)) (bn_plus (Fin a) (Fin (finVal (f x)))) xs"
    using fx by simp
  also have "\<dots> = Fin (a + finVal (f x) + sum_list (map (\<lambda>x. finVal (f x)) xs))"
    using Cons.IH [of "a + finVal (f x)"] Cons.prems by simp
  finally show ?case by (simp add: add.assoc)
qed

lemma foldl_plus_finite_flip:
  "(\<And>x. x \<in> set xs \<Longrightarrow> isFinite (f x)) \<Longrightarrow>
   foldl (\<lambda>acc x. bn_plus (f x) acc) (Fin a) xs = Fin (a + sum_list (map (\<lambda>x. finVal (f x)) xs))"
proof (induction xs arbitrary: a)
  case Nil
  then show ?case by simp
next
  case (Cons x xs)
  have fx: "f x = Fin (finVal (f x))" using Cons.prems [of x] by (simp add: isFinite_Fin)
  have "foldl (\<lambda>acc x. bn_plus (f x) acc) (Fin a) (x # xs) =
        foldl (\<lambda>acc x. bn_plus (f x) acc) (bn_plus (Fin (finVal (f x))) (Fin a)) xs"
    using fx by simp
  also have "\<dots> = Fin (finVal (f x) + a + sum_list (map (\<lambda>x. finVal (f x)) xs))"
    using Cons.IH [of "finVal (f x) + a"] Cons.prems by simp
  finally show ?case by (simp add: add.assoc add.commute)
qed

lemma entries_supply:
  assumes "\<And>x. x \<in> set ds \<Longrightarrow> nonNegative (dep_amountUsd x)"
  shows "foldl (\<lambda>acc d. bn_plus acc (dep_amountUsd d)) (Fin 0) ds =
           Fin (sum_list (map (\<lambda>d. finVal (dep_amountUsd d)) ds))"
proof -
  have "isFinite (dep_amountUsd x)" if "x \<in> set ds" for x
    using assms [OF that] by (rule nonNegative_isFinite)
  then have "foldl (\<lambda>acc d. bn_plus acc (dep_amountUsd d)) (Fin 0) ds =
      Fin (0 + sum_list (map (\<lambda>d. finVal (dep_amountUsd d)) ds))"
    by (rule foldl_plus_finite)
  then show ?thesis by simp
qed

lemma entries_limit:
  assumes "\<And>x. x \<in> set ds \<Longrightarrow>
             nonNegative (dep_amountUsd x) \<and> nonNegative (dep_loanToValueRatio x)"
  shows "foldl (\<lambda>acc d. bn_plus (bn_times (dep_amountUsd d) (dep_loanToValueRatio d)) acc) (Fin 0) ds =
           Fin (sum_list (map (\<lambda>d. finVal (dep_amountUsd d) * finVal (dep_loanToValueRatio d)) ds))"
proof -
  have t: "bn_times (dep_amountUsd x) (dep_loanToValueRatio x) =
             Fin (finVal (dep_amountUsd x) * finVal (dep_loanToValueRatio x))" if "x \<in> set ds" for x
    using assms [OF that] by (simp add: bn_times_finite nonNegative_isFinite)
  have fin: "isFinite (bn_times (dep_amountUsd x) (dep_loanToValueRatio x))" if "x \<in> set ds" for x
    using t [OF that] by simp
  have m: "map (\<lambda>d. finVal (bn_times (dep_amountUsd d) (dep_loanToValueRatio d))) ds =
        map (\<lambda>d. finVal (dep_amountUsd d) * finVal (dep_loanToValueRatio d)) ds"
    by (rule map_cong [OF refl]) (simp add: t)
  have "foldl (\<lambda>acc d. bn_plus (bn_times (dep_amountUsd d) (dep_loanToValueRatio d)) acc) (Fin 0) ds =
      Fin (0 + sum_list (map (\<lambda>d. finVal (bn_times (dep_amountUsd d) (dep_loanToValueRatio d))) ds))"
    by (rule foldl_plus_finite_flip) (rule fin)
  then show ?thesis unfolding m by (simp only: add_0)
qed

lemma entries_borrow:
  assumes "\<And>b. b \<in> set bs \<Longrightarrow> nonNegative (bor_amountUsd b)"
  shows "\<exists>t. 0 \<le> t \<and> foldl (\<lambda>acc b. bn_plus acc (bor_amountUsd b)) (Fin 0) bs = Fin t"
proof -
  have fin: "isFinite (bor_amountUsd b)" if "b \<in> set bs" for b
    using assms [OF that] by (rule nonNegative_isFinite)
  have "0 \<le> finVal (bor_amountUsd b)" if "b \<in> set bs" for b
    using assms [OF that] by (rule nonNegative_finVal)
  then have "0 \<le> sum_list (map (\<lambda>b. finVal (bor_amountUsd b)) bs)"
    by (intro sum_list_nonneg) auto
  moreover have "foldl (\<lambda>acc b. bn_plus acc (bor_amountUsd b)) (Fin 0) bs =
      Fin (0 + sum_list (map (\<lambda>b. finVal (bor_amountUsd b)) bs))"
    by (rule foldl_plus_finite) (rule fin)
  ultimately show ?thesis by simp
qed

lemma limit_terms_nonneg:
  assumes "\<And>x. x \<in> set ds \<Longrightarrow>
             nonNegative (dep_amountUsd x) \<and> nonNegative (dep_loanToValueRatio x)"
  shows "0 \<le> sum_list (map (\<lambda>d. finVal (dep_amountUsd d) * finVal (dep_loanToValueRatio d)) ds)"
proof (rule sum_list_nonneg)
  fix q assume "q \<in> set (map (\<lambda>d. finVal (dep_amountUsd d) * finVal (dep_loanToValueRatio d)) ds)"
  then obtain d where "d \<in> set ds" and q: "q = finVal (dep_amountUsd d) * finVal (dep_loanToValueRatio d)"
    by auto
  from assms [OF this(1)] show "0 \<le> q"
    unfolding q by (simp add: nonNegative_finVal)
qed

lemma entries_limit_le_threshold:
  assumes "\<And>x. x \<in> set ds \<Longrightarrow>
             nonNegative (dep_amountUsd x) \<and>
             leFinite (dep_loanToValueRatio x) (dep_liquidationThreshold x)"
  shows "isLessThanOrEqualTo
           (foldl (\<lambda>acc d. bn_plus (bn_times (dep_amountUsd d) (dep_loanToValueRatio d)) acc) (Fin 0) ds)
           (foldl (\<lambda>acc d. bn_plus (bn_times (dep_amountUsd d) (dep_liquidationThreshold d)) acc) (Fin 0) ds)"
proof -
  have shape: "\<exists>a l t. dep_amountUsd x = Fin a \<and> dep_loanToValueRatio x = Fin l \<and>
                 dep_liquidationThreshold x = Fin t \<and> 0 \<le> a \<and> l \<le> t" if "x \<in> set ds" for x
    using assms [OF that] nonNegative_Fin leFinite_Fin by blast
  have f1: "isFinite (bn_times (dep_amountUsd x) (dep_loanToValueRatio x))" if "x \<in> set ds" for x
    using shape [OF that] by auto
  have f2: "isFinite (bn_times (dep_amountUsd x) (dep_liquidationThreshold x))" if "x \<in> set ds" for x
    using shape [OF that] by auto
  have le: "finVal (bn_times (dep_amountUsd x) (dep_loanToValueRatio x))
              \<le> finVal (bn_times (dep_amountUsd x) (dep_liquidationThreshold x))" if "x \<in> set ds" for x
    using shape [OF that] by (auto intro: mult_left_mono)
  have "sum_list (map (\<lambda>x. finVal (bn_times (dep_amountUsd x) (dep_loanToValueRatio x))) ds)
          \<le> sum_list (map (\<lambda>x. finVal (bn_times (dep_amountUsd x) (dep_liquidationThreshold x))) ds)"
    by (rule sum_list_mono) (rule le)
  then show ?thesis
    by (simp add: foldl_plus_finite_flip [where f = "\<lambda>d. bn_times (dep_amountUsd d) (dep_loanToValueRatio d)", OF f1]
        foldl_plus_finite_flip [where f = "\<lambda>d. bn_times (dep_amountUsd d) (dep_liquidationThreshold d)", OF f2]
        isLessThanOrEqualTo_def)
qed

lemma bn_times_not_finite_left: "\<not> isFinite x \<Longrightarrow> \<not> isFinite (bn_times x y)"
  by (cases x; cases y) simp_all

lemma bn_times_not_finite_right: "\<not> isFinite y \<Longrightarrow> \<not> isFinite (bn_times x y)"
  by (cases x; cases y) simp_all

lemma bn_plus_not_finite_left: "\<not> isFinite x \<Longrightarrow> \<not> isFinite (bn_plus x y)"
  by (cases x; cases y) simp_all

lemma bn_plus_not_finite_right: "\<not> isFinite y \<Longrightarrow> \<not> isFinite (bn_plus x y)"
  by (cases x; cases y) simp_all

lemma bn_minus_not_finite_right: "\<not> isFinite y \<Longrightarrow> \<not> isFinite (bn_minus x y)"
  by (cases x; cases y) (simp_all add: bn_minus_def)

lemma dividedBy_not_finite_left: "\<not> isFinite x \<Longrightarrow> \<not> isFinite (dividedBy x y)"
  by (cases x; cases y) simp_all

lemma foldl_plus_not_finite_start:
  "\<not> isFinite a \<Longrightarrow> \<not> isFinite (foldl (\<lambda>acc x. bn_plus acc (f x)) a xs)"
  by (induction xs arbitrary: a) (simp_all add: bn_plus_not_finite_left)

lemma foldl_plus_not_finite:
  "\<exists>x\<in>set xs. \<not> isFinite (f x) \<Longrightarrow> \<not> isFinite (foldl (\<lambda>acc x. bn_plus acc (f x)) a xs)"
proof (induction xs arbitrary: a)
  case Nil
  then show ?case by simp
next
  case (Cons x xs)
  show ?case
  proof (cases "isFinite (f x)")
    case False
    then have "\<not> isFinite (bn_plus a (f x))" by (rule bn_plus_not_finite_right)
    then show ?thesis by (simp add: foldl_plus_not_finite_start)
  next
    case True
    with Cons.prems have "\<exists>x\<in>set xs. \<not> isFinite (f x)" by auto
    then show ?thesis by (simp add: Cons.IH)
  qed
qed

section \<open>Rounding of quotients\<close>

lemma round_half_up_mono:
  assumes "0 \<le> x" "x \<le> y"
  shows "round_half_up x \<le> round_half_up y"
proof -
  have "x * 10 ^ DECIMAL_PLACES \<le> y * 10 ^ DECIMAL_PLACES"
    using assms by (simp add: mult_right_mono)
  then have "round (x * 10 ^ DECIMAL_PLACES) \<le> round (y * 10 ^ DECIMAL_PLACES)"
    by (rule round_mono)
  then have "(of_int (round (x * 10 ^ DECIMAL_PLACES)) :: rat) \<le> of_int (round (y * 10 ^ DECIMAL_PLACES))"
    by simp
  then show ?thesis
    using assms by (simp add: round_half_up_def divide_right_mono)
qed

lemma round_half_up_error: "\<bar>round_half_up q - q\<bar> \<le> 1 / (2 * 10 ^ DECIMAL_PLACES)"
proof -
  define s :: rat where "s = 10 ^ DECIMAL_PLACES"
  have s: "0 < s" by (simp add: s_def)
  have e: "\<bar>of_int (round (x * s)) / s - x\<bar> \<le> 1 / (2 * s)" for x :: rat
  proof -
    have "\<bar>of_int (round (x * s)) - x * s\<bar> \<le> 1 / 2" by (rule of_int_round_abs_le)
    then have b: "\<bar>of_int (round (x * s)) - x * s\<bar> / s \<le> (1 / 2) / s"
      by (rule divide_right_mono) (rule less_imp_le [OF s])
    have eq: "of_int (round (x * s)) / s - x = (of_int (round (x * s)) - x * s) / s"
      using s by (simp add: diff_divide_distrib)
    have "\<bar>of_int (round (x * s)) / s - x\<bar> = \<bar>(of_int (round (x * s)) - x * s) / s\<bar>"
      by (simp only: eq)
    also have "\<dots> = \<bar>of_int (round (x * s)) - x * s\<bar> / \<bar>s\<bar>" by (rule abs_divide)
    also have "\<dots> = \<bar>of_int (round (x * s)) - x * s\<bar> / s" by (simp only: abs_of_pos [OF s])
    also note b
    finally show ?thesis by simp
  qed
  show ?thesis
  proof (cases "0 \<le> q")
    case True
    then show ?thesis using e [of q] by (simp add: round_half_up_def s_def)
  next
    case False
    have "\<bar>- (of_int (round (- q * s)) / s) - q\<bar> = \<bar>of_int (round (- q * s)) / s - (- q)\<bar>"
      by (simp add: abs_minus_commute)
    also have "\<dots> \<le> 1 / (2 * s)" by (rule e)
    finally show ?thesis using False by (simp add: round_half_up_def s_def)
  qed
qed

lemma round_half_up_exact:
  assumes "q * 10 ^ DECIMAL_PLACES \<in> \<int>"
  shows "round_half_up q = q"
proof -
  define s :: rat where "s = 10 ^ DECIMAL_PLACES"
  have s: "0 < s" by (simp add: s_def)
  from assms obtain k :: int where k: "q * s = of_int k"
    by (auto simp: s_def elim: Ints_cases)
  have q: "q = of_int k / s" using k s by (simp add: field_simps)
  have m: "- q * s = of_int (- k)" using k by simp
  have "round (q * s) = k" unfolding k by (rule round_of_int)
  then have p: "of_int (round (q * s)) / s = q" by (simp add: q)
  have "round (- q * s) = - k" unfolding m by (rule round_of_int)
  then have n: "- (of_int (round (- q * s)) / s) = q" by (simp add: q)
  show ?thesis
    unfolding round_half_up_def s_def [symmetric] using p n by simp
qed

lemma shiftedBy_negative: "shiftedBy (- int n) (Fin a) = Fin (a / 10 ^ n)"
  by (simp add: shiftedBy_def)

lemma borrowAmount_formula:
  "borrowAmount reserve b =
     dividedBy (bn_times (Fin (rawAmount reserve b)) (cumulativeBorrowRate reserve))
       (Fin (snapshotIndex b))"
proof -
  have k: "- 18 - int (decimals reserve) = - int (18 + decimals reserve)" and k': "(- 18 :: int) = - int 18"
    by simp_all
  show ?thesis
    unfolding borrowAmount_def k shiftedBy_negative
    by (subst k') (simp only: shiftedBy_negative rawAmount_def snapshotIndex_def)
qed

lemma borrowAmount_doubled:
  assumes "snapshotIndex b \<noteq> 0"
    and "cumulativeBorrowRate reserve = Fin (2 * snapshotIndex b)"
  shows "borrowAmount reserve b = Fin (round_half_up (2 * rawAmount reserve b))"
  unfolding borrowAmount_formula assms(2) using assms(1) by (simp add: mult.commute)

lemma dividedBy_zero_not_finite: "\<not> isFinite (dividedBy x (Fin 0))"
  by (cases x) simp_all

lemma borrowAmount_zero_index:
  "cumulativeBorrowRateWads b = 0 \<Longrightarrow> \<not> isFinite (borrowAmount reserve b)"
  unfolding borrowAmount_formula
  by (simp add: snapshotIndex_def dividedBy_zero_not_finite)

section \<open>Accrued debt\<close>

text \<open>Claim C1, as amended. In every report, the \<^verbatim>\<open>amount\<close> of the entry of a non-zero
  borrow is the raw wad amount scaled by \<open>10^-(18 + decimals)\<close>, times the reserve's
  \<^verbatim>\<open>cumulativeBorrowRate\<close>, divided with \<^verbatim>\<open>dividedBy\<close> by the stored index scaled by \<open>10^-18\<close>.
  When the stored index is not zero and the reserve's index is exactly twice it, the
  amount is twice the raw amount rounded half up to 20 decimal places: it differs from
  twice the raw amount by at most \<open>0.5 * 10^-20\<close>, and equals it when twice the raw amount
  has no more than 20 decimal places.\<close>

theorem accrued_amount:
  assumes "formatObligation obligation pool = Inr r"
  shows "list_all2
           (\<lambda>b x. \<exists>reserve. findReserve pool (borrowReserve b) = Some reserve \<and>
              bor_amount x =
                dividedBy (bn_times (Fin (rawAmount reserve b)) (cumulativeBorrowRate reserve))
                  (Fin (snapshotIndex b)) \<and>
              (snapshotIndex b \<noteq> 0 \<and> cumulativeBorrowRate reserve = Fin (2 * snapshotIndex b) \<longrightarrow>
                 bor_amount x = Fin (round_half_up (2 * rawAmount reserve b)) \<and>
                 \<bar>finVal (bor_amount x) - 2 * rawAmount reserve b\<bar> \<le> 1 / (2 * 10 ^ DECIMAL_PLACES) \<and>
                 (2 * rawAmount reserve b * 10 ^ DECIMAL_PLACES \<in> \<int> \<longrightarrow>
                    bor_amount x = Fin (2 * rawAmount reserve b))))
           (nonzeroBorrows obligation) (rep_borrows r)"
proof -
  note e = formatObligation_entries [OF assms]
  have "list_all2
           (\<lambda>b x. \<exists>reserve. findReserve pool (borrowReserve b) = Some reserve \<and>
              bor_amount x =
                dividedBy (bn_times (Fin (rawAmount reserve b)) (cumulativeBorrowRate reserve))
                  (Fin (snapshotIndex b)) \<and>
              (snapshotIndex b \<noteq> 0 \<and> cumulativeBorrowRate reserve = Fin (2 * snapshotIndex b) \<longrightarrow>
                 bor_amount x = Fin (round_half_up (2 * rawAmount reserve b)) \<and>
                 \<bar>finVal (bor_amount x) - 2 * rawAmount reserve b\<bar> \<le> 1 / (2 * 10 ^ DECIMAL_PLACES) \<and>
                 (2 * rawAmount reserve b * 10 ^ DECIMAL_PLACES \<in> \<int> \<longrightarrow>
                    bor_amount x = Fin (2 * rawAmount reserve b))))
           (nonzeroBorrows obligation)
           (map (\<lambda>b. borrowRecord (reserveOf pool (borrowReserve b)) b) (nonzeroBorrows obligation))"
    unfolding list_all2_map2
  proof (rule list_all2_all_nthI, simp, goal_cases)
    case (1 n)
    define b where "b = nonzeroBorrows obligation ! n"
    from 1 e(4) obtain reserve where f: "findReserve pool (borrowReserve b) = Some reserve"
      by (auto simp: list_all_length b_def)
    have a: "bor_amount (borrowRecord (reserveOf pool (borrowReserve b)) b) = borrowAmount reserve b"
      by (simp add: borrowRecord_def reserveOf_def f)
    have d: "borrowAmount reserve b = Fin (round_half_up (2 * rawAmount reserve b))"
      if "snapshotIndex b \<noteq> 0" "cumulativeBorrowRate reserve = Fin (2 * snapshotIndex b)"
      using that by (rule borrowAmount_doubled)
    show ?case
      unfolding b_def [symmetric] a
      using f d borrowAmount_formula [of reserve b]
        round_half_up_error [of "2 * rawAmount reserve b"]
        round_half_up_exact [of "2 * rawAmount reserve b"]
      by auto
  qed
  then show ?thesis by (simp only: e(2))
qed

theorem accrued_amount_witness:
  "formatObligation exampleObligation doubledPool = Inr doubledReport \<and>
   nonzeroBorrows exampleObligation = [borrowB] \<and>
   findReserve doubledPool (borrowReserve borrowB) = Some doubledReserveB \<and>
   snapshotIndex borrowB \<noteq> 0 \<and>
   cumulativeBorrowRate doubledReserveB = Fin (2 * snapshotIndex borrowB) \<and>
   2 * rawAmount doubledReserveB borrowB * 10 ^ DECIMAL_PLACES \<in> \<int> \<and>
   rawAmount doubledReserveB borrowB = 50 \<and>
   map bor_amount (rep_borrows doubledReport) = [Fin (2 * rawAmount doubledReserveB borrowB)]"
proof -
  have n: "nonzeroBorrows exampleObligation = [borrowB]"
    by (simp add: nonzeroBorrows_def ex_defs)
  have f: "findReserve doubledPool (borrowReserve borrowB) = Some doubledReserveB"
    by (simp add: findReserve_def ex_defs doubledPool_def doubledReserveB_def)
  have s: "snapshotIndex borrowB \<noteq> 0"
    and c: "cumulativeBorrowRate doubledReserveB = Fin (2 * snapshotIndex borrowB)"
    and i: "2 * rawAmount doubledReserveB borrowB * 10 ^ DECIMAL_PLACES \<in> \<int>"
    and v: "rawAmount doubledReserveB borrowB = 50"
    by (simp_all add: snapshotIndex_def rawAmount_def ex_defs doubledReserveB_def DECIMAL_PLACES_def)
  obtain x where x: "rep_borrows doubledReport = [x]"
    by (simp add: doubledReport_def)
  from accrued_amount [OF doubled_formats] f s c i
  have "bor_amount x = Fin (2 * rawAmount doubledReserveB borrowB)"
    unfolding n x by auto
  with x have "map bor_amount (rep_borrows doubledReport) = [Fin (2 * rawAmount doubledReserveB borrowB)]"
    by simp
  with doubled_formats n f s c i v show ?thesis by blast
qed

text \<open>The claim as stated fails: a borrow of one wad from a reserve with 6 decimals has the
  raw amount \<open>10^-24\<close>; with the reserve's index at twice the stored one, the quotient
  \<open>2 * 10^-24\<close> is rounded to 20 decimal places, and the entry's amount is 0.\<close>

theorem accrued_amount_counterexample:
  "formatObligation dustObligation doubledPool = Inr dustReport \<and>
   nonzeroBorrows dustObligation = [dustBorrow] \<and>
   findReserve doubledPool (borrowReserve dustBorrow) = Some doubledReserveB \<and>
   snapshotIndex dustBorrow = 1 \<and>
   cumulativeBorrowRate doubledReserveB = Fin (2 * snapshotIndex dustBorrow) \<and>
   map bor_amount (rep_borrows dustReport) = [Fin 0] \<and>
   2 * rawAmount doubledReserveB dustBorrow = 2 / 10 ^ 24 \<and>
   Fin 0 \<noteq> Fin (2 * rawAmount doubledReserveB dustBorrow)"
  by (simp add: dust_formats)
     (simp add: dustReport_def nonzeroBorrows_def findReserve_def snapshotIndex_def rawAmount_def
        ex_defs dustObligation_def dustBorrow_def doubledPool_def doubledReserveB_def)

section \<open>Missing reserves\<close>

text \<open>Claim C2. If a deposit or a borrow with a non-zero amount names a reserve address
  that \<^verbatim>\<open>pool.reserves\<close> does not hold, \<^verbatim>\<open>formatObligation\<close> throws: the result is an
  error and no report, whatever the other positions are.\<close>

theorem reserve_not_found_aborts:
  assumes "(\<exists>d\<in>set (deposits obligation).
              depositedAmount d \<noteq> 0 \<and> findReserve pool (depositReserve d) = None) \<or>
           (\<exists>b\<in>set (borrows obligation).
              borrowedAmountWads b \<noteq> 0 \<and> findReserve pool (borrowReserve b) = None)"
  shows "\<exists>e. formatObligation obligation pool = Inl e"
proof -
  from assms have "\<not> reservesPresent obligation pool"
    by (auto simp: reservesPresent_def nonzeroDeposits_def nonzeroBorrows_def list_all_iff)
  then show ?thesis by (rule formatObligation_missing)
qed

theorem reserve_not_found_aborts_witness:
  "((\<exists>d\<in>set (deposits missingObligation).
       depositedAmount d \<noteq> 0 \<and> findReserve examplePool (depositReserve d) = None) \<or>
    (\<exists>b\<in>set (borrows missingObligation).
       borrowedAmountWads b \<noteq> 0 \<and> findReserve examplePool (borrowReserve b) = None)) \<and>
   (\<exists>e. formatObligation missingObligation examplePool = Inl e)"
proof -
  have h: "(\<exists>d\<in>set (deposits missingObligation).
       depositedAmount d \<noteq> 0 \<and> findReserve examplePool (depositReserve d) = None) \<or>
    (\<exists>b\<in>set (borrows missingObligation).
       borrowedAmountWads b \<noteq> 0 \<and> findReserve examplePool (borrowReserve b) = None)"
    by (simp add: ex_defs missingObligation_def findReserve_def)
  from h reserve_not_found_aborts [OF h] show ?thesis by blast
qed

section \<open>The guard of the weighted utilization\<close>

text \<open>Claim C3, as amended. In every report, \<^verbatim>\<open>minPriceBorrowLimit\<close>, \<^verbatim>\<open>borrowLimit\<close> and
  \<^verbatim>\<open>weightedTotalBorrowValue\<close> are the conservative accumulator, the nominal borrow limit and
  the weighted borrow total of the input, and \<^verbatim>\<open>weightedBorrowUtilization\<close> is 0 when the
  conservative accumulator is zero and otherwise the weighted borrow total divided with
  \<^verbatim>\<open>dividedBy\<close> by the nominal borrow limit: the quantity tested for zero is not the divisor,
  and for finite values and a divisor that is not zero the result is the quotient rounded
  half up to 20 decimal places.\<close>

theorem weighted_utilization_from_inputs:
  assumes "formatObligation obligation pool = Inr r"
  shows "minPriceBorrowLimit r = conservativeBorrowLimit obligation pool \<and>
         borrowLimit r = nominalBorrowLimit obligation pool \<and>
         weightedTotalBorrowValue r = weightedBorrowTotal obligation pool \<and>
         weightedBorrowUtilization r =
           (if isZero (conservativeBorrowLimit obligation pool) then Fin 0
            else dividedBy (weightedBorrowTotal obligation pool)
                   (nominalBorrowLimit obligation pool)) \<and>
         (\<forall>w l. \<not> isZero (conservativeBorrowLimit obligation pool) \<and>
                weightedBorrowTotal obligation pool = Fin w \<and>
                nominalBorrowLimit obligation pool = Fin l \<and> l \<noteq> 0 \<longrightarrow>
                weightedBorrowUtilization r = Fin (round_half_up (w / l)))"
proof -
  note i = formatObligation_inputs [OF assms]
  obtain ds bs s l w where r: "r = aggregate obligation ds bs s l w"
    using formatObligation_aggregate [OF assms] by blast
  have "weightedBorrowUtilization r =
          (if isZero (minPriceBorrowLimit r) then Fin 0
           else dividedBy (weightedTotalBorrowValue r) (borrowLimit r))"
    unfolding r by (simp only: aggregate_ratios aggregate_lists)
  then have u: "weightedBorrowUtilization r =
           (if isZero (conservativeBorrowLimit obligation pool) then Fin 0
            else dividedBy (weightedBorrowTotal obligation pool)
                   (nominalBorrowLimit obligation pool))"
    by (simp only: i)
  then have "\<forall>w l. \<not> isZero (conservativeBorrowLimit obligation pool) \<and>
                weightedBorrowTotal obligation pool = Fin w \<and>
                nominalBorrowLimit obligation pool = Fin l \<and> l \<noteq> 0 \<longrightarrow>
                weightedBorrowUtilization r = Fin (round_half_up (w / l))"
    by simp
  with i u show ?thesis by blast
qed

lemmas input_eval = conservativeBorrowLimit_def nominalBorrowLimit_def weightedBorrowTotal_def
  nonzeroDeposits_def nonzeroBorrows_def reserveOf_def findReserve_def depositAmount_def
  borrowAmount_def shiftedBy_def round_half_up_def DECIMAL_PLACES_def round_rat_numeral_divide

theorem weighted_utilization_from_inputs_witness:
  "formatObligation exampleObligation zeroMinPricePool = Inr zeroMinPriceReport \<and>
   isZero (conservativeBorrowLimit exampleObligation zeroMinPricePool) \<and>
   weightedBorrowUtilization zeroMinPriceReport = Fin 0 \<and>
   dividedBy (weightedBorrowTotal exampleObligation zeroMinPricePool)
     (nominalBorrowLimit exampleObligation zeroMinPricePool) = Fin (5 / 8) \<and>
   formatObligation exampleObligation thirdsPool = Inr thirdsReport \<and>
   conservativeBorrowLimit exampleObligation thirdsPool = Fin 60 \<and>
   \<not> isZero (conservativeBorrowLimit exampleObligation thirdsPool) \<and>
   weightedBorrowTotal exampleObligation thirdsPool = Fin 100 \<and>
   nominalBorrowLimit exampleObligation thirdsPool = Fin 60 \<and>
   weightedBorrowUtilization thirdsReport = Fin (round_half_up (100 / 60)) \<and>
   round_half_up (100 / 60) = 166666666666666666667 / 10 ^ 20"
proof -
  have z: "isZero (conservativeBorrowLimit exampleObligation zeroMinPricePool)"
    and d: "dividedBy (weightedBorrowTotal exampleObligation zeroMinPricePool)
              (nominalBorrowLimit exampleObligation zeroMinPricePool) = Fin (5 / 8)"
    by (simp_all add: input_eval isZero_def ex_defs zeroMinPricePool_def)
  have c: "conservativeBorrowLimit exampleObligation thirdsPool = Fin 60"
    and w: "weightedBorrowTotal exampleObligation thirdsPool = Fin 100"
    and l: "nominalBorrowLimit exampleObligation thirdsPool = Fin 60"
    by (simp_all add: input_eval ex_defs thirdsPool_def)
  have n: "\<not> isZero (conservativeBorrowLimit exampleObligation thirdsPool)"
    by (simp add: c isZero_def)
  have v: "round_half_up (100 / 60) = 166666666666666666667 / 10 ^ 20"
    by (simp add: round_half_up_def DECIMAL_PLACES_def round_rat_numeral_divide)
  from weighted_utilization_from_inputs [OF zeroMinPrice_formats] z
  have a: "weightedBorrowUtilization zeroMinPriceReport = Fin 0" by simp
  from weighted_utilization_from_inputs [OF thirds_formats] n w l
  have b: "weightedBorrowUtilization thirdsReport = Fin (round_half_up (100 / 60))" by simp
  from zeroMinPrice_formats z a d thirds_formats c n w l b v show ?thesis by blast
qed

text \<open>The claim as stated fails: with a weighted borrow total of 100, a borrow limit of 60
  and a conservative accumulator of 60, \<^verbatim>\<open>weightedBorrowUtilization\<close> is
  1.66666666666666666667, which is not 100 / 60.\<close>

theorem weighted_utilization_counterexample:
  "formatObligation exampleObligation thirdsPool = Inr thirdsReport \<and>
   minPriceBorrowLimit thirdsReport = Fin 60 \<and>
   weightedTotalBorrowValue thirdsReport = Fin 100 \<and>
   borrowLimit thirdsReport = Fin 60 \<and>
   weightedBorrowUtilization thirdsReport = Fin (166666666666666666667 / 10 ^ 20) \<and>
   weightedBorrowUtilization thirdsReport \<noteq> Fin (100 / 60)"
  by (simp add: thirds_formats) (simp add: thirdsReport_def)

section \<open>A reserve without a borrow weight\<close>

text \<open>Claim C4. With one borrow from a reserve whose \<^verbatim>\<open>borrowWeight\<close> is not set, the
  accumulator \<^verbatim>\<open>maxPriceUserTotalWeightedBorrow\<close> is weighted by \<^verbatim>\<open>U64_MAX\<close> (source line 75),
  but \<^verbatim>\<open>weightedAmountUsd\<close> is \<^verbatim>\<open>new BigNumber(undefined)\<close> times the value (source line 86):
  the entry's weighted value and \<^verbatim>\<open>weightedTotalBorrowValue\<close> are \<^verbatim>\<open>NaN\<close>, not a value
  weighted by the sentinel.\<close>

theorem unset_borrow_weight_evaluation:
  "borrowWeight reserveB = None \<and>
   findReserve examplePool (borrowReserve borrowB) = Some reserveB \<and>
   formatObligation exampleObligation examplePool = Inr exampleReport \<and>
   map bor_amountUsd (rep_borrows exampleReport) = [Fin 50] \<and>
   map bor_weightedAmountUsd (rep_borrows exampleReport) = [NaN] \<and>
   weightedTotalBorrowValue exampleReport = NaN \<and>
   maxPriceUserTotalWeightedBorrow exampleReport = bn_times (Fin 50) U64_MAX"
  by (simp add: example_formats)
     (simp add: exampleReport_def findReserve_def U64_MAX_def ex_defs)

section \<open>The conservative supply accumulator\<close>

text \<open>Claim C5. For the deposit of 100 units in a reserve priced 2 whose \<^verbatim>\<open>minPrice\<close> is not
  set, the fallback to \<^verbatim>\<open>price\<close> would add 200 to the accumulator. The deposit callback
  passes \<^verbatim>\<open>reserve.minPrice\<close> to \<^verbatim>\<open>times\<close> as it is (source lines 33-39), where the borrow
  callback falls back to \<^verbatim>\<open>reserve.price\<close> for an unset \<^verbatim>\<open>emaPrice\<close> (lines 68-70) and to
  \<^verbatim>\<open>U64_MAX\<close> for an unset \<^verbatim>\<open>borrowWeight\<close> (line 75): \<^verbatim>\<open>minPriceUserTotalSupply\<close> and
  \<^verbatim>\<open>minPriceBorrowLimit\<close> are \<^verbatim>\<open>NaN\<close>, and so is the conservative utilization.\<close>

theorem unset_min_price_evaluation:
  "nonzeroDeposits exampleObligation = [depositA] \<and>
   findReserve noMinPricePool (depositReserve depositA) = Some noMinPriceReserveA \<and>
   minPrice noMinPriceReserveA = None \<and>
   bn_times (depositAmount noMinPriceReserveA depositA) (price noMinPriceReserveA) = Fin 200 \<and>
   formatObligation exampleObligation noMinPricePool = Inr noMinPriceReport \<and>
   minPriceUserTotalSupply noMinPriceReport = NaN \<and>
   minPriceBorrowLimit noMinPriceReport = NaN \<and>
   weightedConservativeBorrowUtilization noMinPriceReport = NaN"
  by (simp add: noMinPrice_formats)
     (simp add: noMinPriceReport_def nonzeroDeposits_def findReserve_def depositAmount_def
        shiftedBy_def ex_defs noMinPricePool_def noMinPriceReserveA_def)

section \<open>A stored interest index of zero\<close>

text \<open>Claim C6, as amended. A stored interest index of 0 is not an error: whenever the
  reserves of all non-zero positions are present, \<^verbatim>\<open>formatObligation\<close> returns a report. In
  it, the \<^verbatim>\<open>amount\<close> and \<^verbatim>\<open>amountUsd\<close> of a non-zero borrow whose \<^verbatim>\<open>cumulativeBorrowRateWads\<close>
  is 0 are not finite numbers (each is an infinity or \<^verbatim>\<open>NaN\<close>), and with such a borrow
  \<^verbatim>\<open>totalBorrowValue\<close>, \<^verbatim>\<open>netAccountValue\<close>, \<^verbatim>\<open>weightedTotalBorrowValue\<close> and
  \<^verbatim>\<open>maxPriceUserTotalWeightedBorrow\<close> are not finite either, nor is \<^verbatim>\<open>borrowUtilization\<close> unless
  \<^verbatim>\<open>borrowLimit\<close> is zero, nor \<^verbatim>\<open>borrowOverSupply\<close> unless \<^verbatim>\<open>totalSupplyValue\<close> is zero.\<close>

theorem zero_snapshot_index_spreads:
  assumes "reservesPresent obligation pool"
  shows "\<exists>r. formatObligation obligation pool = Inr r \<and>
           list_all2
             (\<lambda>b x. cumulativeBorrowRateWads b = 0 \<longrightarrow>
                \<not> isFinite (bor_amount x) \<and> \<not> isFinite (bor_amountUsd x))
             (nonzeroBorrows obligation) (rep_borrows r) \<and>
           ((\<exists>b\<in>set (nonzeroBorrows obligation). cumulativeBorrowRateWads b = 0) \<longrightarrow>
              \<not> isFinite (totalBorrowValue r) \<and>
              \<not> isFinite (netAccountValue r) \<and>
              \<not> isFinite (weightedTotalBorrowValue r) \<and>
              \<not> isFinite (maxPriceUserTotalWeightedBorrow r) \<and>
              (\<not> isZero (borrowLimit r) \<longrightarrow> \<not> isFinite (borrowUtilization r)) \<and>
              (\<not> isZero (totalSupplyValue r) \<longrightarrow> \<not> isFinite (borrowOverSupply r)))"
proof -
  let ?bs = "nonzeroBorrows obligation"
  let ?rec = "\<lambda>b. borrowRecord (reserveOf pool (borrowReserve b)) b"
  note f = formatObligation_found [OF assms]
  then obtain r where r: "formatObligation obligation pool = Inr r" by blast
  note e = formatObligation_entries [OF r]
  obtain ds bs s l w where a: "r = aggregate obligation ds bs s l w"
    using formatObligation_aggregate [OF r] by blast
  have bs: "bs = map ?rec ?bs" using e(2) by (simp add: a)
  have amt: "\<not> isFinite (bor_amount (?rec b))" if "cumulativeBorrowRateWads b = 0" for b
    using that by (simp add: borrowRecord_def borrowAmount_zero_index)
  have usd: "\<not> isFinite (bor_amountUsd (?rec b))" if "cumulativeBorrowRateWads b = 0" for b
    using that by (simp add: borrowRecord_def borrowAmount_zero_index bn_times_not_finite_left)
  have wusd: "\<not> isFinite (bor_weightedAmountUsd (?rec b))" if "cumulativeBorrowRateWads b = 0" for b
    using that
    by (simp add: borrowRecord_def borrowAmount_zero_index bn_times_not_finite_left
        bn_times_not_finite_right)
  have mx: "\<not> isFinite (maxPriceTerm (reserveOf pool (borrowReserve b)) b)"
    if "cumulativeBorrowRateWads b = 0" for b
    using that by (simp add: maxPriceTerm_def borrowAmount_zero_index bn_times_not_finite_left)
  have entries: "list_all2
             (\<lambda>b x. cumulativeBorrowRateWads b = 0 \<longrightarrow>
                \<not> isFinite (bor_amount x) \<and> \<not> isFinite (bor_amountUsd x))
             ?bs (rep_borrows r)"
    unfolding e(2) list_all2_map2
    by (rule list_all2_all_nthI) (simp_all add: amt usd)
  have totals: "\<not> isFinite (totalBorrowValue r) \<and>
              \<not> isFinite (netAccountValue r) \<and>
              \<not> isFinite (weightedTotalBorrowValue r) \<and>
              \<not> isFinite (maxPriceUserTotalWeightedBorrow r) \<and>
              (\<not> isZero (borrowLimit r) \<longrightarrow> \<not> isFinite (borrowUtilization r)) \<and>
              (\<not> isZero (totalSupplyValue r) \<longrightarrow> \<not> isFinite (borrowOverSupply r))"
    if "\<exists>b\<in>set ?bs. cumulativeBorrowRateWads b = 0"
  proof -
    from that obtain b where b: "b \<in> set ?bs" "cumulativeBorrowRateWads b = 0" by blast
    have "\<exists>x\<in>set bs. \<not> isFinite (bor_amountUsd x)"
      using b usd unfolding bs by auto
    then have "\<not> isFinite (foldl (\<lambda>acc x. bn_plus acc (bor_amountUsd x)) (Fin 0) bs)"
      by (rule foldl_plus_not_finite)
    then have t: "\<not> isFinite (totalBorrowValue r)"
      by (simp add: a aggregate_totals)
    have "\<exists>x\<in>set bs. \<not> isFinite (bor_weightedAmountUsd x)"
      using b wusd unfolding bs by auto
    then have "\<not> isFinite (foldl (\<lambda>acc x. bn_plus acc (bor_weightedAmountUsd x)) (Fin 0) bs)"
      by (rule foldl_plus_not_finite)
    then have wt: "\<not> isFinite (weightedTotalBorrowValue r)"
      by (simp add: a aggregate_totals)
    have "\<exists>x\<in>set ?bs. \<not> isFinite (maxPriceTerm (reserveOf pool (borrowReserve x)) x)"
      using b mx by auto
    then have "\<not> isFinite (foldl (\<lambda>s b. bn_plus s (maxPriceTerm (reserveOf pool (borrowReserve b)) b))
                  (Fin 0) ?bs)"
      by (rule foldl_plus_not_finite)
    then have m: "\<not> isFinite (maxPriceUserTotalWeightedBorrow r)"
      using f r by auto
    have n: "\<not> isFinite (netAccountValue r)"
      using t by (simp add: a aggregate_ratios bn_minus_not_finite_right)
    have u: "\<not> isFinite (borrowUtilization r)" if "\<not> isZero (borrowLimit r)"
      using that t by (simp add: a aggregate_ratios dividedBy_not_finite_left)
    have o: "\<not> isFinite (borrowOverSupply r)" if "\<not> isZero (totalSupplyValue r)"
      using that t by (simp add: a aggregate_ratios dividedBy_not_finite_left)
    from t n wt m u o show ?thesis by blast
  qed
  from r entries totals show ?thesis by blast
qed

theorem zero_snapshot_index_spreads_witness:
  "reservesPresent zeroIndexObligation examplePool \<and>
   formatObligation zeroIndexObligation examplePool = Inr zeroIndexReport \<and>
   nonzeroBorrows zeroIndexObligation = [zeroIndexBorrow] \<and>
   cumulativeBorrowRateWads zeroIndexBorrow = 0 \<and>
   \<not> isZero (borrowLimit zeroIndexReport) \<and>
   \<not> isZero (totalSupplyValue zeroIndexReport) \<and>
   list_all (\<lambda>x. \<not> isFinite (bor_amount x) \<and> \<not> isFinite (bor_amountUsd x))
     (rep_borrows zeroIndexReport) \<and>
   \<not> isFinite (totalBorrowValue zeroIndexReport) \<and>
   \<not> isFinite (netAccountValue zeroIndexReport) \<and>
   \<not> isFinite (weightedTotalBorrowValue zeroIndexReport) \<and>
   \<not> isFinite (maxPriceUserTotalWeightedBorrow zeroIndexReport) \<and>
   \<not> isFinite (borrowUtilization zeroIndexReport) \<and>
   \<not> isFinite (borrowOverSupply zeroIndexReport)"
proof -
  have p: "reservesPresent zeroIndexObligation examplePool"
    by (simp add: reservesPresent_def nonzeroDeposits_def nonzeroBorrows_def findReserve_def
        ex_defs zeroIndexObligation_def zeroIndexBorrow_def)
  have n: "nonzeroBorrows zeroIndexObligation = [zeroIndexBorrow]"
    and c: "cumulativeBorrowRateWads zeroIndexBorrow = 0"
    by (simp_all add: nonzeroBorrows_def zeroIndexObligation_def zeroIndexBorrow_def)
  have z: "\<not> isZero (borrowLimit zeroIndexReport)" "\<not> isZero (totalSupplyValue zeroIndexReport)"
    by (simp_all add: zeroIndexReport_def isZero_def)
  obtain x where x: "rep_borrows zeroIndexReport = [x]"
    by (simp add: zeroIndexReport_def)
  from zero_snapshot_index_spreads [OF p] c z
  have "\<not> isFinite (bor_amount x) \<and> \<not> isFinite (bor_amountUsd x) \<and>
        \<not> isFinite (totalBorrowValue zeroIndexReport) \<and>
        \<not> isFinite (netAccountValue zeroIndexReport) \<and>
        \<not> isFinite (weightedTotalBorrowValue zeroIndexReport) \<and>
        \<not> isFinite (maxPriceUserTotalWeightedBorrow zeroIndexReport) \<and>
        \<not> isFinite (borrowUtilization zeroIndexReport) \<and>
        \<not> isFinite (borrowOverSupply zeroIndexReport)"
    unfolding zeroIndex_formats n by (simp add: x)
  with p n c z x zeroIndex_formats show ?thesis by simp
qed

text \<open>The claim as stated fails: the borrow of 50 units with a stored index of 0 raises no
  error; the report has the amount \<^verbatim>\<open>Infinity\<close>, and with it an infinite
  \<^verbatim>\<open>totalBorrowValue\<close> and \<^verbatim>\<open>borrowUtilization\<close>.\<close>

theorem zero_snapshot_index_counterexample:
  "nonzeroBorrows zeroIndexObligation = [zeroIndexBorrow] \<and>
   cumulativeBorrowRateWads zeroIndexBorrow = 0 \<and>
   formatObligation zeroIndexObligation examplePool = Inr zeroIndexReport \<and>
   map bor_amount (rep_borrows zeroIndexReport) = [PInf] \<and>
   totalBorrowValue zeroIndexReport = PInf \<and>
   borrowUtilization zeroIndexReport = PInf \<and>
   isBorrowLimitReached zeroIndexReport"
  by (simp add: zeroIndex_formats)
     (simp add: zeroIndexReport_def nonzeroBorrows_def zeroIndexObligation_def
        zeroIndexBorrow_def)

section \<open>Ratios with a zero denominator\<close>

text \<open>Claim C7. In every report, \<^verbatim>\<open>borrowUtilization\<close> is 0 when \<^verbatim>\<open>borrowLimit\<close> is zero,
  whatever \<^verbatim>\<open>totalBorrowValue\<close> is, and \<^verbatim>\<open>liquidationThresholdFactor\<close>, \<^verbatim>\<open>borrowLimitFactor\<close>
  and \<^verbatim>\<open>borrowOverSupply\<close> are 0 when \<^verbatim>\<open>totalSupplyValue\<close> is zero. The only errors are
  those of reserve resolution: when \<^verbatim>\<open>formatObligation\<close> returns an error, a non-zero position
  names a reserve that the pool does not hold.\<close>

theorem zero_denominator_policy:
  "case formatObligation obligation pool of
     Inl e \<Rightarrow> \<not> reservesPresent obligation pool
   | Inr r \<Rightarrow>
       (isZero (borrowLimit r) \<longrightarrow> borrowUtilization r = Fin 0) \<and>
       (isZero (totalSupplyValue r) \<longrightarrow>
          liquidationThresholdFactor r = Fin 0 \<and> borrowLimitFactor r = Fin 0 \<and>
          borrowOverSupply r = Fin 0)"
proof (cases "formatObligation obligation pool")
  case (Inl e)
  then have "\<not> reservesPresent obligation pool"
    using formatObligation_found [of obligation pool] by auto
  with Inl show ?thesis by simp
next
  case (Inr r)
  obtain ds bs s l w where r: "r = aggregate obligation ds bs s l w"
    using formatObligation_aggregate [OF Inr] by blast
  have "(isZero (borrowLimit r) \<longrightarrow> borrowUtilization r = Fin 0) \<and>
       (isZero (totalSupplyValue r) \<longrightarrow>
          liquidationThresholdFactor r = Fin 0 \<and> borrowLimitFactor r = Fin 0 \<and>
          borrowOverSupply r = Fin 0)"
    unfolding r by (simp add: aggregate_ratios)
  with Inr show ?thesis by simp
qed

theorem zero_denominator_policy_witness:
  "formatObligation missingObligation examplePool = Inl DepositReserveMissing \<and>
   \<not> reservesPresent missingObligation examplePool \<and>
   formatObligation borrowOnlyObligation examplePool = Inr borrowOnlyReport \<and>
   totalBorrowValue borrowOnlyReport = Fin 50 \<and>
   isZero (borrowLimit borrowOnlyReport) \<and>
   isZero (totalSupplyValue borrowOnlyReport) \<and>
   borrowUtilization borrowOnlyReport = Fin 0 \<and>
   liquidationThresholdFactor borrowOnlyReport = Fin 0 \<and>
   borrowLimitFactor borrowOnlyReport = Fin 0 \<and>
   borrowOverSupply borrowOnlyReport = Fin 0"
proof -
  have z: "isZero (borrowLimit borrowOnlyReport)" "isZero (totalSupplyValue borrowOnlyReport)"
    and t: "totalBorrowValue borrowOnlyReport = Fin 50"
    by (simp_all add: borrowOnlyReport_def isZero_def)
  from zero_denominator_policy [of borrowOnlyObligation examplePool] z
  have "borrowUtilization borrowOnlyReport = Fin 0 \<and>
        liquidationThresholdFactor borrowOnlyReport = Fin 0 \<and>
        borrowLimitFactor borrowOnlyReport = Fin 0 \<and>
        borrowOverSupply borrowOnlyReport = Fin 0"
    by (simp add: borrowOnly_formats)
  moreover from zero_denominator_policy [of missingObligation examplePool]
  have "\<not> reservesPresent missingObligation examplePool"
    by (simp add: missing_formats)
  ultimately show ?thesis using z t missing_formats borrowOnly_formats by blast
qed

section \<open>Positions with a zero amount\<close>

text \<open>Claim C8. Deposits and borrows with a zero amount are left out of the entry lists,
  add nothing to any accumulator or total and are not counted in \<^verbatim>\<open>positions\<close>: the result
  is that of the obligation without them, and \<^verbatim>\<open>positions\<close> is the number of entries. An
  obligation with no non-zero position gets the report whose totals and ratios are all 0 and
  whose \<^verbatim>\<open>isBorrowLimitReached\<close> is false.\<close>

theorem zero_positions_inert:
  "formatObligation obligation pool = formatObligation (dropZeroPositions obligation) pool \<and>
   (\<forall>r. formatObligation obligation pool = Inr r \<longrightarrow>
      length (rep_deposits r) = length (nonzeroDeposits obligation) \<and>
      length (rep_borrows r) = length (nonzeroBorrows obligation) \<and>
      positions r = length (rep_deposits r) + length (rep_borrows r)) \<and>
   (nonzeroDeposits obligation = [] \<and> nonzeroBorrows obligation = [] \<longrightarrow>
      formatObligation obligation pool = Inr (emptyReport obligation))"
proof (intro conjI allI impI)
  have nd: "nonzeroDeposits (dropZeroPositions obligation) = nonzeroDeposits obligation"
    and nb: "nonzeroBorrows (dropZeroPositions obligation) = nonzeroBorrows obligation"
    by (simp_all add: dropZeroPositions_def nonzeroDeposits_def nonzeroBorrows_def)
  have agg: "aggregate (dropZeroPositions obligation) ds bs s l w = aggregate obligation ds bs s l w"
    for ds bs s l w
    using nd nb
    by (simp add: aggregate_def Let_def dropZeroPositions_def nonzeroDeposits_def nonzeroBorrows_def)
  show "formatObligation obligation pool = formatObligation (dropZeroPositions obligation) pool"
    unfolding formatObligation_def nonzeroDeposits_def [symmetric] nonzeroBorrows_def [symmetric]
      nd nb agg ..
next
  fix r assume r: "formatObligation obligation pool = Inr r"
  then have p: "reservesPresent obligation pool"
    using formatObligation_Inr_iff by blast
  from formatObligation_found [OF p] r
  show "length (rep_deposits r) = length (nonzeroDeposits obligation)"
    and "length (rep_borrows r) = length (nonzeroBorrows obligation)"
    and "positions r = length (rep_deposits r) + length (rep_borrows r)"
    by (auto simp: aggregate_ratios)
next
  assume e: "nonzeroDeposits obligation = [] \<and> nonzeroBorrows obligation = []"
  then have p: "reservesPresent obligation pool"
    by (simp add: reservesPresent_def)
  show "formatObligation obligation pool = Inr (emptyReport obligation)"
    unfolding formatObligation_found [OF p] using e
    by (simp add: aggregate_def emptyReport_def Let_def isZero_def bn_minus_def
        isGreaterThanOrEqualTo_def nonzeroDeposits_def nonzeroBorrows_def)
qed

theorem zero_positions_inert_witness:
  "dropZeroPositions paddedObligation = exampleObligation \<and>
   formatObligation paddedObligation examplePool = formatObligation exampleObligation examplePool \<and>
   formatObligation paddedObligation examplePool = Inr exampleReport \<and>
   length (nonzeroDeposits paddedObligation) = 1 \<and>
   length (nonzeroBorrows paddedObligation) = 1 \<and>
   positions exampleReport = 2 \<and>
   nonzeroDeposits inertObligation = [] \<and> nonzeroBorrows inertObligation = [] \<and>
   formatObligation inertObligation examplePool = Inr (emptyReport inertObligation)"
proof -
  have d: "dropZeroPositions paddedObligation = exampleObligation"
    by (simp add: dropZeroPositions_def nonzeroDeposits_def nonzeroBorrows_def ex_defs paddedObligation_def)
  have n: "nonzeroDeposits inertObligation = [] \<and> nonzeroBorrows inertObligation = []"
    by (simp add: nonzeroDeposits_def nonzeroBorrows_def inertObligation_def)
  have l: "length (nonzeroDeposits paddedObligation) = 1 \<and> length (nonzeroBorrows paddedObligation) = 1"
    by (simp add: nonzeroDeposits_def nonzeroBorrows_def ex_defs paddedObligation_def)
  from zero_positions_inert [of paddedObligation examplePool]
  have "formatObligation paddedObligation examplePool = formatObligation exampleObligation examplePool"
    and "positions exampleReport = length (rep_deposits exampleReport) + length (rep_borrows exampleReport)"
    unfolding d by (simp_all add: padded_formats)
  moreover have "formatObligation inertObligation examplePool = Inr (emptyReport inertObligation)"
    using zero_positions_inert [of inertObligation examplePool] n by blast
  ultimately show ?thesis using d n l padded_formats by (simp add: exampleReport_def)
qed

section \<open>Raising one deposit\<close>

text \<open>Claim C9, as amended. Take the reports of two runs whose borrow entries are the same
  and whose deposit entries differ in one entry only, which keeps its loan-to-value ratio
  and has a larger finite \<^verbatim>\<open>amountUsd\<close> in the second run; let the \<^verbatim>\<open>amountUsd\<close> and the
  loan-to-value ratio of every deposit entry and the \<^verbatim>\<open>amountUsd\<close> of every borrow entry be
  finite and not negative. Then \<^verbatim>\<open>borrowLimit\<close> and \<^verbatim>\<open>totalSupplyValue\<close> do not decrease, and
  \<^verbatim>\<open>borrowUtilization\<close> does not increase provided \<^verbatim>\<open>borrowLimit\<close> was not zero in the first
  run. (When it was zero the guard makes \<^verbatim>\<open>borrowUtilization\<close> 0, and it can rise.)\<close>

theorem deposit_increase_monotone:
  assumes "formatObligation obligation pool = Inr r"
    and "formatObligation obligation' pool' = Inr r'"
    and "rep_deposits r = pre @ x # post"
    and "rep_deposits r' = pre @ x' # post"
    and "rep_borrows r' = rep_borrows r"
    and "dep_loanToValueRatio x' = dep_loanToValueRatio x"
    and "leFinite (dep_amountUsd x) (dep_amountUsd x')"
    and "\<forall>y\<in>set (rep_deposits r).
           nonNegative (dep_amountUsd y) \<and> nonNegative (dep_loanToValueRatio y)"
    and "\<forall>b\<in>set (rep_borrows r). nonNegative (bor_amountUsd b)"
  shows "isLessThanOrEqualTo (borrowLimit r) (borrowLimit r') \<and>
         isLessThanOrEqualTo (totalSupplyValue r) (totalSupplyValue r') \<and>
         (\<not> isZero (borrowLimit r) \<longrightarrow>
            isLessThanOrEqualTo (borrowUtilization r') (borrowUtilization r))"
proof -
  let ?prod = "\<lambda>d. finVal (dep_amountUsd d) * finVal (dep_loanToValueRatio d)"
  let ?usd = "\<lambda>d. finVal (dep_amountUsd d)"
  obtain ds bs s l w where r: "r = aggregate obligation ds bs s l w"
    using formatObligation_aggregate [OF assms(1)] by blast
  obtain ds' bs' s' l' w' where r': "r' = aggregate obligation' ds' bs' s' l' w'"
    using formatObligation_aggregate [OF assms(2)] by blast
  have ds: "ds = pre @ x # post" and ds': "ds' = pre @ x' # post" and bs': "bs' = bs"
    using assms(3,4,5) by (simp_all add: r r')
  have nn: "nonNegative (dep_amountUsd y) \<and> nonNegative (dep_loanToValueRatio y)"
    if "y \<in> set ds" for y using assms(8) that by (simp add: r)
  have nx: "nonNegative (dep_amountUsd x)" "nonNegative (dep_loanToValueRatio x)"
    using nn [of x] by (simp_all add: ds)
  define v where "v = finVal (dep_amountUsd x)"
  define v' where "v' = finVal (dep_amountUsd x')"
  define lx where "lx = finVal (dep_loanToValueRatio x)"
  have lx': "finVal (dep_loanToValueRatio x') = lx"
    using assms(6) by (simp add: lx_def)
  have v0: "0 \<le> v" and l0: "0 \<le> lx"
    using nx by (simp_all add: v_def lx_def nonNegative_finVal)
  obtain a a' where aa: "dep_amountUsd x = Fin a" "dep_amountUsd x' = Fin a'" "a \<le> a'"
    using leFinite_Fin [OF assms(7)] by blast
  have vv: "v \<le> v'" using aa by (simp add: v_def v'_def)
  have nx': "nonNegative (dep_amountUsd x')" "nonNegative (dep_loanToValueRatio x')"
    using aa v0 nx(2) assms(6) by (simp_all add: v_def)
  have nn': "nonNegative (dep_amountUsd y) \<and> nonNegative (dep_loanToValueRatio y)"
    if "y \<in> set ds'" for y
  proof (cases "y = x'")
    case True
    then show ?thesis using nx' by simp
  next
    case False
    with that have "y \<in> set ds" by (auto simp: ds ds')
    then show ?thesis by (rule nn)
  qed
  have npre: "nonNegative (dep_amountUsd y) \<and> nonNegative (dep_loanToValueRatio y)"
    if "y \<in> set pre" for y using nn [of y] that by (simp add: ds)
  have npost: "nonNegative (dep_amountUsd y) \<and> nonNegative (dep_loanToValueRatio y)"
    if "y \<in> set post" for y using nn [of y] that by (simp add: ds)
  have pre0: "0 \<le> sum_list (map ?prod pre)" by (rule limit_terms_nonneg) (rule npre)
  have post0: "0 \<le> sum_list (map ?prod post)" by (rule limit_terms_nonneg) (rule npost)
  have "borrowLimit r = Fin (sum_list (map ?prod ds))"
    unfolding r aggregate_totals by (rule entries_limit) (rule nn)
  then have limit: "borrowLimit r = Fin (sum_list (map ?prod pre) + v * lx + sum_list (map ?prod post))"
    by (simp add: ds v_def lx_def)
  have "borrowLimit r' = Fin (sum_list (map ?prod ds'))"
    unfolding r' aggregate_totals by (rule entries_limit) (rule nn')
  then have limit': "borrowLimit r' = Fin (sum_list (map ?prod pre) + v' * lx + sum_list (map ?prod post))"
    by (simp add: ds' lx' v'_def)
  have "totalSupplyValue r = Fin (sum_list (map ?usd ds))"
    unfolding r aggregate_totals by (rule entries_supply) (simp add: nn)
  then have tsv: "totalSupplyValue r = Fin (sum_list (map ?usd pre) + v + sum_list (map ?usd post))"
    by (simp add: ds v_def)
  have "totalSupplyValue r' = Fin (sum_list (map ?usd ds'))"
    unfolding r' aggregate_totals by (rule entries_supply) (simp add: nn')
  then have tsv': "totalSupplyValue r' = Fin (sum_list (map ?usd pre) + v' + sum_list (map ?usd post))"
    by (simp add: ds' v'_def)
  have nb: "nonNegative (bor_amountUsd b)" if "b \<in> set bs" for b
    using assms(9) that by (simp add: r)
  obtain t where t0: "0 \<le> t"
    and tf: "foldl (\<lambda>acc b. bn_plus acc (bor_amountUsd b)) (Fin 0) bs = Fin t"
    using entries_borrow [of bs, OF nb] by blast
  have t: "totalBorrowValue r = Fin t" and t': "totalBorrowValue r' = Fin t"
    unfolding r r' aggregate_totals bs' by (rule tf)+
  define L where "L = sum_list (map ?prod pre) + v * lx + sum_list (map ?prod post)"
  define L' where "L' = sum_list (map ?prod pre) + v' * lx + sum_list (map ?prod post)"
  have LL: "L \<le> L'" using vv l0 by (simp add: L_def L'_def mult_right_mono)
  have L0: "0 \<le> L" using pre0 post0 v0 l0 by (simp add: L_def)
  have util: "isLessThanOrEqualTo (borrowUtilization r') (borrowUtilization r)"
    if nz: "\<not> isZero (borrowLimit r)"
  proof -
    from nz limit L0 have Lpos: "0 < L" by (simp add: isZero_def L_def)
    with LL have Lpos': "0 < L'" by linarith
    have bl: "borrowLimit (aggregate obligation ds bs s l w) = Fin L"
      using limit by (simp add: r L_def)
    have bl': "borrowLimit (aggregate obligation' ds' bs' s' l' w') = Fin L'"
      using limit' by (simp add: r' L'_def)
    have tb: "totalBorrowValue (aggregate obligation ds bs s l w) = Fin t"
      using t by (simp add: r)
    have tb': "totalBorrowValue (aggregate obligation' ds' bs' s' l' w') = Fin t"
      using t' by (simp add: r')
    have u: "borrowUtilization r = Fin (round_half_up (t / L))"
      unfolding r aggregate_ratios bl tb using Lpos by (simp add: isZero_def)
    have u': "borrowUtilization r' = Fin (round_half_up (t / L'))"
      unfolding r' aggregate_ratios bl' tb' using Lpos' by (simp add: isZero_def)
    have "t / L' \<le> t / L"
      using LL Lpos t0 by (intro divide_left_mono) simp_all
    moreover have "0 \<le> t / L'" using t0 Lpos' by simp
    ultimately have "round_half_up (t / L') \<le> round_half_up (t / L)"
      by (intro round_half_up_mono)
    then show ?thesis unfolding u u' by (simp add: isLessThanOrEqualTo_def)
  qed
  have "isLessThanOrEqualTo (borrowLimit r) (borrowLimit r')"
    unfolding limit limit' using LL by (simp add: isLessThanOrEqualTo_def L_def L'_def)
  moreover have "isLessThanOrEqualTo (totalSupplyValue r) (totalSupplyValue r')"
    unfolding tsv tsv' using vv by (simp add: isLessThanOrEqualTo_def)
  ultimately show ?thesis using util by blast
qed

theorem deposit_increase_monotone_witness:
  "formatObligation exampleObligation examplePool = Inr exampleReport \<and>
   formatObligation largerDepositObligation examplePool = Inr largerDepositReport \<and>
   map dep_amountUsd (rep_deposits exampleReport) = [Fin 200] \<and>
   map dep_amountUsd (rep_deposits largerDepositReport) = [Fin 400] \<and>
   rep_borrows largerDepositReport = rep_borrows exampleReport \<and>
   \<not> isZero (borrowLimit exampleReport) \<and>
   isLessThanOrEqualTo (borrowLimit exampleReport) (borrowLimit largerDepositReport) \<and>
   isLessThanOrEqualTo (totalSupplyValue exampleReport) (totalSupplyValue largerDepositReport) \<and>
   isLessThanOrEqualTo (borrowUtilization largerDepositReport) (borrowUtilization exampleReport)"
proof -
  have d: "rep_deposits exampleReport = [] @ hd (rep_deposits exampleReport) # []"
    and d': "rep_deposits largerDepositReport = [] @ hd (rep_deposits largerDepositReport) # []"
    and b: "rep_borrows largerDepositReport = rep_borrows exampleReport"
    and l: "dep_loanToValueRatio (hd (rep_deposits largerDepositReport)) =
            dep_loanToValueRatio (hd (rep_deposits exampleReport))"
    and a: "leFinite (dep_amountUsd (hd (rep_deposits exampleReport)))
              (dep_amountUsd (hd (rep_deposits largerDepositReport)))"
    and n: "\<forall>y\<in>set (rep_deposits exampleReport).
              nonNegative (dep_amountUsd y) \<and> nonNegative (dep_loanToValueRatio y)"
    and nb: "\<forall>b\<in>set (rep_borrows exampleReport). nonNegative (bor_amountUsd b)"
    and z: "\<not> isZero (borrowLimit exampleReport)"
    by (simp_all add: exampleReport_def largerDepositReport_def isZero_def)
  from deposit_increase_monotone [OF example_formats largerDeposit_formats d d' b l a n nb] z
  have "isLessThanOrEqualTo (borrowLimit exampleReport) (borrowLimit largerDepositReport) \<and>
   isLessThanOrEqualTo (totalSupplyValue exampleReport) (totalSupplyValue largerDepositReport) \<and>
   isLessThanOrEqualTo (borrowUtilization largerDepositReport) (borrowUtilization exampleReport)"
    by blast
  moreover have "map dep_amountUsd (rep_deposits exampleReport) = [Fin 200]"
    and "map dep_amountUsd (rep_deposits largerDepositReport) = [Fin 400]"
    by (simp_all add: exampleReport_def largerDepositReport_def)
  ultimately show ?thesis using example_formats largerDeposit_formats b z by blast
qed

text \<open>The claim as stated fails: with the price of the deposit's reserve raised from 0 to
  2, the \<^verbatim>\<open>amountUsd\<close> of the only deposit goes from 0 to 200, the borrows are unchanged, and
  \<^verbatim>\<open>borrowUtilization\<close> goes from 0 to 0.3125.\<close>

theorem deposit_increase_counterexample:
  "formatObligation exampleObligation zeroPricePool = Inr zeroPriceReport \<and>
   formatObligation exampleObligation examplePool = Inr exampleReport \<and>
   map dep_amountUsd (rep_deposits zeroPriceReport) = [Fin 0] \<and>
   map dep_amountUsd (rep_deposits exampleReport) = [Fin 200] \<and>
   map dep_loanToValueRatio (rep_deposits zeroPriceReport) =
     map dep_loanToValueRatio (rep_deposits exampleReport) \<and>
   rep_borrows exampleReport = rep_borrows zeroPriceReport \<and>
   borrowUtilization zeroPriceReport = Fin 0 \<and>
   borrowUtilization exampleReport = Fin (5 / 16) \<and>
   isGreaterThan (borrowUtilization exampleReport) (borrowUtilization zeroPriceReport)"
  by (simp add: zeroPrice_formats example_formats)
     (simp add: zeroPriceReport_def exampleReport_def isGreaterThan_def)

section \<open>Borrow limit and liquidation threshold\<close>

text \<open>Claim C10. When every reserve that a non-zero deposit refers to has a finite
  \<^verbatim>\<open>loanToValueRatio\<close> that is at most its finite \<^verbatim>\<open>liquidationThreshold\<close>, and the
  \<^verbatim>\<open>amountUsd\<close> of every deposit entry is a finite value that is not negative, then
  \<^verbatim>\<open>borrowLimit\<close> is at most \<^verbatim>\<open>liquidationThreshold\<close> in the report.\<close>

theorem borrow_limit_below_threshold:
  assumes "formatObligation obligation pool = Inr r"
    and "\<forall>d\<in>set (nonzeroDeposits obligation). \<forall>reserve.
           findReserve pool (depositReserve d) = Some reserve \<longrightarrow> ltvWithinThreshold reserve"
    and "\<forall>x\<in>set (rep_deposits r). nonNegative (dep_amountUsd x)"
  shows "isLessThanOrEqualTo (borrowLimit r) (rep_liquidationThreshold r)"
proof -
  have p: "reservesPresent obligation pool"
    using assms(1) formatObligation_Inr_iff by blast
  have ds: "rep_deposits r =
      map (\<lambda>d. depositRecord (reserveOf pool (depositReserve d)) d) (nonzeroDeposits obligation)"
    using formatObligation_found [OF p] assms(1) by auto
  have e: "nonNegative (dep_amountUsd x) \<and>
           leFinite (dep_loanToValueRatio x) (dep_liquidationThreshold x)"
    if "x \<in> set (rep_deposits r)" for x
  proof -
    from that ds obtain d where d: "d \<in> set (nonzeroDeposits obligation)"
      and x: "x = depositRecord (reserveOf pool (depositReserve d)) d" by auto
    from p d obtain reserve where f: "findReserve pool (depositReserve d) = Some reserve"
      by (auto simp: reservesPresent_def list_all_iff)
    with assms(2) d have "ltvWithinThreshold reserve" by blast
    then have "leFinite (dep_loanToValueRatio x) (dep_liquidationThreshold x)"
      using f by (simp add: x depositRecord_def reserveOf_def ltvWithinThreshold_def)
    with assms(3) that show ?thesis by blast
  qed
  obtain ds' bs s l w where r: "r = aggregate obligation ds' bs s l w"
    using formatObligation_aggregate [OF assms(1)] by blast
  from e show ?thesis
    unfolding r by (simp only: aggregate_totals aggregate_lists entries_limit_le_threshold)
qed

theorem borrow_limit_below_threshold_witness:
  "formatObligation exampleObligation examplePool = Inr exampleReport \<and>
   nonzeroDeposits exampleObligation = [depositA] \<and>
   findReserve examplePool (depositReserve depositA) = Some reserveA \<and>
   ltvWithinThreshold reserveA \<and>
   list_all (\<lambda>x. nonNegative (dep_amountUsd x)) (rep_deposits exampleReport) \<and>
   borrowLimit exampleReport = Fin 160 \<and> rep_liquidationThreshold exampleReport = Fin 170 \<and>
   isLessThanOrEqualTo (borrowLimit exampleReport) (rep_liquidationThreshold exampleReport)"
proof -
  have n: "nonzeroDeposits exampleObligation = [depositA]"
    and f: "findReserve examplePool (depositReserve depositA) = Some reserveA"
    and t: "ltvWithinThreshold reserveA"
    by (simp_all add: nonzeroDeposits_def ex_defs findReserve_def ltvWithinThreshold_def)
  have h2: "\<forall>d\<in>set (nonzeroDeposits exampleObligation). \<forall>reserve.
       findReserve examplePool (depositReserve d) = Some reserve \<longrightarrow> ltvWithinThreshold reserve"
    using f t by (simp add: n)
  have a: "list_all (\<lambda>x. nonNegative (dep_amountUsd x)) (rep_deposits exampleReport)"
    and v: "borrowLimit exampleReport = Fin 160" "rep_liquidationThreshold exampleReport = Fin 170"
    by (simp_all add: exampleReport_def)
  have h3: "\<forall>x\<in>set (rep_deposits exampleReport). nonNegative (dep_amountUsd x)"
    using a by (simp add: list_all_iff)
  from borrow_limit_below_threshold [OF example_formats h2 h3] example_formats n f t a v
  show ?thesis by blast
qed

end
